theory Spec2Isabelle
  imports Complex_Main
begin

section \<open>Python values as they reach \<open>genie_room.py\<close>\<close>

text \<open>
  Every value the orchestration code inspects is the result of \<open>response.json()\<close>: a JSON
  document decoded into Python objects. \<open>None\<close> is \<open>JNull\<close>. A \<open>dict\<close> is an association
  list whose first binding of a key is the one Python would hold. A finite \<open>float\<close> is
  represented by its exact value. Strings are character lists.
\<close>

datatype json =
    JNull
  | JBool bool
  | JInt int
  | JFloat real
  | JStr string
  | JList "json list"
  | JDict "(string \<times> json) list"

text \<open>
  Exceptions are values. \<open>HTTPError\<close> is what \<open>response.raise_for_status()\<close> raises and
  carries the status code of the response attached to it; \<open>RequestException\<close> stands for
  the transport failures of \<open>requests\<close>; the others are the interpreter's own.
  \<open>str(e)\<close> is \<open>str e\<close>.
\<close>

datatype exn_kind =
    HTTPError nat
  | RequestException
  | JSONDecodeError
  | TimeoutError
  | TypeError
  | AttributeError
  | KeyError
  | OtherException

datatype exn = Exn (kind: exn_kind) (str: string)

definition try_bind :: "exn + 'a \<Rightarrow> ('a \<Rightarrow> exn + 'b) \<Rightarrow> exn + 'b" where
  "try_bind x f = (case x of Inl e \<Rightarrow> Inl e | Inr v \<Rightarrow> f v)"

fun type_name :: "json \<Rightarrow> string" where
  "type_name JNull = ''NoneType''"
| "type_name (JBool _) = ''bool''"
| "type_name (JInt _) = ''int''"
| "type_name (JFloat _) = ''float''"
| "type_name (JStr _) = ''str''"
| "type_name (JList _) = ''list''"
| "type_name (JDict _) = ''dict''"

definition quoted :: "string \<Rightarrow> string" where
  "quoted s = CHR 0x27 # s @ [CHR 0x27]"

text \<open>Truth value of an object, as \<open>if x:\<close> tests it.\<close>

fun py_truthy :: "json \<Rightarrow> bool" where
  "py_truthy JNull = False"
| "py_truthy (JBool b) = b"
| "py_truthy (JInt i) = (i \<noteq> 0)"
| "py_truthy (JFloat r) = (r \<noteq> 0)"
| "py_truthy (JStr s) = (s \<noteq> [])"
| "py_truthy (JList xs) = (xs \<noteq> [])"
| "py_truthy (JDict kvs) = (kvs \<noteq> [])"

text \<open>
  \<open>a == b\<close>. Numbers and booleans compare by value (\<open>True == 1\<close>, \<open>1 == 1.0\<close>), lists
  element by element, dicts by size and by the value under every key, whatever the order.
\<close>

fun py_num :: "json \<Rightarrow> real option" where
  "py_num (JBool b) = Some (if b then 1 else 0)"
| "py_num (JInt i) = Some (of_int i)"
| "py_num (JFloat r) = Some r"
| "py_num _ = None"

fun py_eq :: "json \<Rightarrow> json \<Rightarrow> bool"
  and py_eq_list :: "json list \<Rightarrow> json list \<Rightarrow> bool"
  and py_eq_items :: "(string \<times> json) list \<Rightarrow> (string \<times> json) list \<Rightarrow> bool"
  and py_eq_lookup :: "json \<Rightarrow> string \<Rightarrow> (string \<times> json) list \<Rightarrow> bool" where
  "py_eq JNull b = (b = JNull)"
| "py_eq (JStr s) b = (b = JStr s)"
| "py_eq (JList xs) (JList ys) = py_eq_list xs ys"
| "py_eq (JList xs) _ = False"
| "py_eq (JDict d) (JDict e) = (length d = length e \<and> py_eq_items d e)"
| "py_eq (JDict d) _ = False"
| "py_eq a b = (case (py_num a, py_num b) of (Some x, Some y) \<Rightarrow> x = y | _ \<Rightarrow> False)"
| "py_eq_list [] [] = True"
| "py_eq_list (x # xs) (y # ys) = (py_eq x y \<and> py_eq_list xs ys)"
| "py_eq_list _ _ = False"
| "py_eq_items [] e = True"
| "py_eq_items ((k, v) # d) e = (py_eq_lookup v k e \<and> py_eq_items d e)"
| "py_eq_lookup v k [] = False"
| "py_eq_lookup v k ((k', w) # e) = (if k = k' then py_eq v w else py_eq_lookup v k e)"

text \<open>\<open>d.get(k, default)\<close>: only a dict has the method.\<close>

fun py_get :: "json \<Rightarrow> string \<Rightarrow> json \<Rightarrow> exn + json" where
  "py_get (JDict kvs) k dflt = Inr (case map_of kvs k of Some v \<Rightarrow> v | None \<Rightarrow> dflt)"
| "py_get x k dflt =
     Inl (Exn AttributeError
       (quoted (type_name x) @ '' object has no attribute '' @ quoted ''get''))"

text \<open>\<open>len(x)\<close>.\<close>

fun py_len :: "json \<Rightarrow> exn + nat" where
  "py_len (JList xs) = Inr (length xs)"
| "py_len (JDict kvs) = Inr (length kvs)"
| "py_len (JStr s) = Inr (length s)"
| "py_len x =
     Inl (Exn TypeError (''object of type '' @ quoted (type_name x) @ '' has no len()''))"

text \<open>The elements a \<open>for\<close> loop visits: list entries, dict keys, the characters of a string.\<close>

fun py_iter :: "json \<Rightarrow> exn + json list" where
  "py_iter (JList xs) = Inr xs"
| "py_iter (JDict kvs) = Inr (map (\<lambda>kv. JStr (fst kv)) kvs)"
| "py_iter (JStr s) = Inr (map (\<lambda>c. JStr [c]) s)"
| "py_iter x =
     Inl (Exn TypeError (quoted (type_name x) @ '' object is not iterable''))"

text \<open>Substring test, \<open>s in t\<close> on two strings.\<close>

fun starts_with :: "string \<Rightarrow> string \<Rightarrow> bool" where
  "starts_with [] t = True"
| "starts_with (c # s) [] = False"
| "starts_with (c # s) (d # t) = (c = d \<and> starts_with s t)"

fun str_contains :: "string \<Rightarrow> string \<Rightarrow> bool" where
  "str_contains s [] = (s = [])"
| "str_contains s (d # t) = (starts_with s (d # t) \<or> str_contains s t)"

text \<open>\<open>k in x\<close> for a string literal \<open>k\<close>: a key of a dict, an element of a list, a
  substring of a string; anything else is not a container.\<close>

fun py_in :: "string \<Rightarrow> json \<Rightarrow> exn + bool" where
  "py_in k (JDict kvs) = Inr (k \<in> set (map fst kvs))"
| "py_in k (JList xs) = Inr (list_ex (\<lambda>x. py_eq (JStr k) x) xs)"
| "py_in k (JStr s) = Inr (str_contains k s)"
| "py_in k x =
     Inl (Exn TypeError (''argument of type '' @ quoted (type_name x) @ '' is not iterable''))"

text \<open>\<open>x[k]\<close> for a string literal \<open>k\<close>.\<close>

fun py_getitem :: "json \<Rightarrow> string \<Rightarrow> exn + json" where
  "py_getitem (JDict kvs) k =
     (case map_of kvs k of Some v \<Rightarrow> Inr v | None \<Rightarrow> Inl (Exn KeyError (quoted k)))"
| "py_getitem (JList xs) k =
     Inl (Exn TypeError ''list indices must be integers or slices, not str'')"
| "py_getitem (JStr s) k = Inl (Exn TypeError ''string indices must be integers'')"
| "py_getitem x k =
     Inl (Exn TypeError (quoted (type_name x) @ '' object is not subscriptable''))"

text \<open>\<open>x[0]\<close>.\<close>

fun py_first :: "json \<Rightarrow> exn + json" where
  "py_first (JList xs) =
     (case xs of [] \<Rightarrow> Inl (Exn OtherException ''list index out of range'') | x # _ \<Rightarrow> Inr x)"
| "py_first (JStr s) =
     (case s of [] \<Rightarrow> Inl (Exn OtherException ''string index out of range'')
      | c # _ \<Rightarrow> Inr (JStr [c]))"
| "py_first (JDict kvs) = Inl (Exn KeyError ''0'')"
| "py_first x =
     Inl (Exn TypeError (quoted (type_name x) @ '' object is not subscriptable''))"

text \<open>Decimal rendering of a non-negative integer, as an f-string prints it.\<close>

fun str_of_nat :: "nat \<Rightarrow> string" where
  "str_of_nat n =
     (if n < 10 then [''0123456789'' ! n]
      else str_of_nat (n div 10) @ [''0123456789'' ! (n mod 10)])"

text \<open>\<open>x[-1]\<close>.\<close>

fun py_last :: "json \<Rightarrow> exn + json" where
  "py_last (JList xs) =
     (if xs = [] then Inl (Exn OtherException ''list index out of range'') else Inr (last xs))"
| "py_last (JStr s) =
     (if s = [] then Inl (Exn OtherException ''string index out of range'')
      else Inr (JStr [last s]))"
| "py_last (JDict kvs) = Inl (Exn KeyError ''-1'')"
| "py_last x =
     Inl (Exn TypeError (quoted (type_name x) @ '' object is not subscriptable''))"

definition str_of_int :: "int \<Rightarrow> string" where
  "str_of_int i = (if i < 0 then ''-'' @ str_of_nat (nat (- i)) else str_of_nat (nat i))"

section \<open>The client as its callers see it\<close>

text \<open>
  \<open>start_new_conversation\<close>, \<open>continue_conversation\<close> and \<open>process_genie_response\<close> only
  call methods of a \<open>GenieClient\<close>. A \<open>client\<close> gives, for each method, what a call returns
  or raises once the retry decorator is done with it. \<open>get_message\<close> and \<open>get_query_result\<close>
  are called repeatedly, so their answer also depends on how many calls came before.
\<close>

record client =
  cl_start_conversation :: "string \<Rightarrow> exn + json"
  cl_send_message :: "json \<Rightarrow> string \<Rightarrow> exn + json"
  cl_get_message :: "nat \<Rightarrow> json \<Rightarrow> json \<Rightarrow> exn + json"
  cl_list_conversation_messages :: "json \<Rightarrow> exn + json"
  cl_get_query_result :: "nat \<Rightarrow> json \<Rightarrow> json \<Rightarrow> json \<Rightarrow> exn + json"

section \<open>\<open>GenieClient.wait_for_message_completion\<close>\<close>

text \<open>
  The loop reads the clock at its head, fetches the message, and sleeps. \<open>clock k\<close> is what
  the \<open>k\<close>-th call of \<open>time.time()\<close> returns (call 0 sets \<open>start_time\<close>). The state counts the
  clock reads and the \<open>get_message\<close> calls made so far and records every \<open>time.sleep\<close>.
  Nothing forces the clock to advance, so the loop may run forever: \<open>None\<close>.
\<close>

record poll_state =
  clock_reads :: nat
  polls :: nat
  sleeps :: "int list"

definition is_terminal :: "json \<Rightarrow> bool" where
  "is_terminal status =
     list_ex (\<lambda>s. py_eq status (JStr s)) [''COMPLETED'', ''ERROR'', ''FAILED'']"

definition timeout_error :: "int \<Rightarrow> exn" where
  "timeout_error timeout =
     Exn TimeoutError (''Message processing timed out after '' @ str_of_int timeout @ '' seconds'')"

partial_function (option) poll_loop ::
  "(nat \<Rightarrow> real) \<Rightarrow> client \<Rightarrow> json \<Rightarrow> json \<Rightarrow> real \<Rightarrow> int \<Rightarrow> int \<Rightarrow> poll_state
     \<Rightarrow> ((exn + json) \<times> poll_state) option" where
  "poll_loop clock c conversation_id message_id start_time timeout poll_interval st =
     (let now = clock (clock_reads st);
          st1 = st\<lparr>clock_reads := Suc (clock_reads st)\<rparr>
      in if now - start_time < real_of_int timeout then
           (let st2 = st1\<lparr>polls := Suc (polls st1)\<rparr>
            in case cl_get_message c (polls st1) conversation_id message_id of
                 Inl e \<Rightarrow> Some (Inl e, st2)
               | Inr message \<Rightarrow>
                   (case py_get message ''status'' JNull of
                      Inl e \<Rightarrow> Some (Inl e, st2)
                    | Inr status \<Rightarrow>
                        if is_terminal status then Some (Inr message, st2)
                        else poll_loop clock c conversation_id message_id start_time timeout
                               poll_interval (st2\<lparr>sleeps := sleeps st2 @ [poll_interval]\<rparr>)))
         else Some (Inl (timeout_error timeout), st1))"

definition wait_for_message_completion ::
  "(nat \<Rightarrow> real) \<Rightarrow> client \<Rightarrow> json \<Rightarrow> json \<Rightarrow> int \<Rightarrow> int
     \<Rightarrow> ((exn + json) \<times> poll_state) option" where
  "wait_for_message_completion clock c conversation_id message_id timeout poll_interval =
     poll_loop clock c conversation_id message_id (clock 0) timeout poll_interval
       \<lparr>clock_reads = 1, polls = 0, sleeps = []\<rparr>"

text \<open>The defaults of the signature: \<open>timeout: int = 300, poll_interval: int = 2\<close>.\<close>

definition default_timeout :: int where
  "default_timeout = 300"

definition default_poll_interval :: int where
  "default_poll_interval = 2"

section \<open>Finding the answer message\<close>

text \<open>
  The same block stands in \<open>start_new_conversation\<close> (lines 299-324) and in
  \<open>continue_conversation\<close> (lines 370-395). \<open>scan_messages\<close> is its \<open>for i, msg in
  enumerate(messages)\<close> loop and returns \<open>bot_response_message\<close> (\<open>None\<close> when it is not
  set); both logging lines of the loop call \<open>.get\<close> and so raise on an entry that is not a
  dict.
\<close>

fun scan_messages :: "json \<Rightarrow> json list \<Rightarrow> nat \<Rightarrow> json list \<Rightarrow> exn + json" where
  "scan_messages message_id messages i [] = Inr JNull"
| "scan_messages message_id messages i (msg # rest) =
     (case py_get msg ''message_id'' JNull of
        Inl e \<Rightarrow> Inl e
      | Inr msg_id \<Rightarrow>
          (case py_get msg ''role'' (JStr ''unknown'') of
             Inl e \<Rightarrow> Inl e
           | Inr role \<Rightarrow>
               if py_eq msg_id message_id then
                 (if i + 1 < length messages then
                    (case py_get (messages ! (i + 1)) ''message_id'' JNull of
                       Inl e \<Rightarrow> Inl e
                     | Inr _ \<Rightarrow> Inr (messages ! (i + 1)))
                  else Inr JNull)
               else scan_messages message_id messages (i + 1) rest))"

definition resolve_full_message :: "json \<Rightarrow> json \<Rightarrow> json \<Rightarrow> exn + json" where
  "resolve_full_message message_id complete_message messages_response =
     try_bind (py_get messages_response ''messages'' (JList [])) (\<lambda>messages.
     try_bind (py_len messages) (\<lambda>_.
     try_bind (py_iter messages) (\<lambda>entries.
     try_bind (scan_messages message_id entries 0 entries) (\<lambda>bot_response_message.
       if py_truthy bot_response_message then Inr bot_response_message
       else if py_truthy messages then
         try_bind (py_last messages) (\<lambda>full_message.
         try_bind (py_get full_message ''message_id'' JNull) (\<lambda>_. Inr full_message))
       else Inr complete_message))))"

section \<open>\<open>process_genie_response\<close>\<close>

text \<open>
  The result is a text (any JSON value taken from the message, \<open>None\<close> included) or a
  table. \<open>pandas\<close> is not part of the repository: the constructor call
  \<open>pd.DataFrame(data_array, columns=columns)\<close> is the parameter \<open>DataFrame\<close>, which
  returns the table or raises.
\<close>

datatype 'df result = Value json | Frame 'df

fun is_dict :: "json \<Rightarrow> bool" where
  "is_dict (JDict _) = True"
| "is_dict _ = False"

fun py_keys :: "json \<Rightarrow> exn + json list" where
  "py_keys (JDict kvs) = Inr (map (\<lambda>kv. JStr (fst kv)) kvs)"
| "py_keys x =
     Inl (Exn AttributeError
       (quoted (type_name x) @ '' object has no attribute '' @ quoted ''keys''))"

text \<open>
  First pass (lines 436-456). The logging lines evaluate \<open>attachment.keys()\<close> and, once a
  payload with a \<open>questions\<close> key is taken, \<open>len(suggested_questions)\<close>.
\<close>

fun collect_suggested_questions :: "json \<Rightarrow> json list \<Rightarrow> exn + json" where
  "collect_suggested_questions suggested_questions [] = Inr suggested_questions"
| "collect_suggested_questions suggested_questions (attachment # rest) =
     (case py_keys attachment of
        Inl e \<Rightarrow> Inl e
      | Inr _ \<Rightarrow>
          (case py_in ''suggested_questions'' attachment of
             Inl e \<Rightarrow> Inl e
           | Inr present \<Rightarrow>
               if present then
                 (case py_get attachment ''suggested_questions'' JNull of
                    Inl e \<Rightarrow> Inl e
                  | Inr sq_data \<Rightarrow>
                      if is_dict sq_data \<and> py_in ''questions'' sq_data = Inr True then
                        (case py_get sq_data ''questions'' (JList []) of
                           Inl e \<Rightarrow> Inl e
                         | Inr questions \<Rightarrow>
                             (case py_len questions of
                                Inl e \<Rightarrow> Inl e
                              | Inr _ \<Rightarrow> collect_suggested_questions questions rest))
                      else collect_suggested_questions suggested_questions rest)
               else collect_suggested_questions suggested_questions rest))"

text \<open>\<open>"text" in attachment and "content" in attachment["text"]\<close>\<close>

definition has_text_content :: "json \<Rightarrow> exn + bool" where
  "has_text_content attachment =
     try_bind (py_in ''text'' attachment) (\<lambda>b.
       if b then try_bind (py_getitem attachment ''text'') (\<lambda>t. py_in ''content'' t)
       else Inr False)"

text \<open>\<open>attachment["text"]["content"]\<close>\<close>

definition text_content :: "json \<Rightarrow> exn + json" where
  "text_content attachment =
     try_bind (py_getitem attachment ''text'') (\<lambda>t. py_getitem t ''content'')"

text \<open>\<open>attachment.get("query", {}).get("query", "")\<close>\<close>

definition query_of :: "json \<Rightarrow> exn + json" where
  "query_of attachment =
     try_bind (py_get attachment ''query'' (JDict [])) (\<lambda>q. py_get q ''query'' (JStr []))"

text \<open>\<open>[col.get('name') for col in schema.get('columns', [])]\<close>\<close>

fun column_names :: "json list \<Rightarrow> exn + json list" where
  "column_names [] = Inr []"
| "column_names (col # cols) =
     (case py_get col ''name'' JNull of
        Inl e \<Rightarrow> Inl e
      | Inr name \<Rightarrow>
          (case column_names cols of Inl e \<Rightarrow> Inl e | Inr names \<Rightarrow> Inr (name # names)))"

definition schema_columns :: "json \<Rightarrow> exn + json list" where
  "schema_columns schema =
     try_bind (py_get schema ''columns'' (JList [])) (\<lambda>cs.
     try_bind (py_iter cs) column_names)"

text \<open>\<open>[f"column_{i}" for i in range(n)]\<close>\<close>

definition generic_columns :: "nat \<Rightarrow> json list" where
  "generic_columns n = map (\<lambda>i. JStr (''column_'' @ str_of_nat i)) [0..<n]"

text \<open>
  Lines 473-484, from the fetched \<open>query_result\<close> on: \<open>Some\<close> table when \<open>data_array\<close> is
  true (the loop then breaks), \<open>None\<close> when it is not (the loop goes on).
\<close>

definition table_of :: "(json \<Rightarrow> json list \<Rightarrow> exn + 'df) \<Rightarrow> json \<Rightarrow> exn + 'df option" where
  "table_of DataFrame query_result =
     try_bind (py_get query_result ''data_array'' (JList [])) (\<lambda>data_array.
     try_bind (py_get query_result ''schema'' (JDict [])) (\<lambda>schema.
     try_bind (schema_columns schema) (\<lambda>columns.
       if py_truthy data_array then
         try_bind
           (if columns = [] \<and> py_truthy data_array then
              try_bind (py_len data_array) (\<lambda>n.
                if n > 0 then
                  try_bind (py_first data_array) (\<lambda>row.
                  try_bind (py_len row) (\<lambda>w. Inr (generic_columns w)))
                else Inr columns)
            else Inr columns)
           (\<lambda>columns. try_bind (DataFrame data_array columns) (\<lambda>df. Inr (Some df)))
       else Inr None)))"

text \<open>
  Second pass (lines 459-484). The loop carries \<open>query_text\<close>; \<open>fetched\<close> lists the
  attachment ids \<open>client.get_query_result\<close> has been called with. At a \<open>break\<close> and at the
  end of the list the function returns \<open>(result, query_text, fetched)\<close>.
\<close>

fun content_pass ::
  "(json \<Rightarrow> json list \<Rightarrow> exn + 'df) \<Rightarrow> client \<Rightarrow> json \<Rightarrow> json \<Rightarrow> json \<Rightarrow> json list \<Rightarrow> json list
     \<Rightarrow> exn + ('df result \<times> json \<times> json list)" where
  "content_pass DataFrame c conversation_id message_id query_text fetched [] =
     Inr (Value JNull, query_text, fetched)"
| "content_pass DataFrame c conversation_id message_id query_text fetched (attachment # rest) =
     (case py_get attachment ''attachment_id'' JNull of
        Inl e \<Rightarrow> Inl e
      | Inr attachment_id \<Rightarrow>
          (case has_text_content attachment of
             Inl e \<Rightarrow> Inl e
           | Inr has_text \<Rightarrow>
               if has_text then
                 (case text_content attachment of
                    Inl e \<Rightarrow> Inl e
                  | Inr content \<Rightarrow> Inr (Value content, JNull, fetched))
               else
                 (case py_in ''query'' attachment of
                    Inl e \<Rightarrow> Inl e
                  | Inr has_query \<Rightarrow>
                      if has_query then
                        (case query_of attachment of
                           Inl e \<Rightarrow> Inl e
                         | Inr query_text' \<Rightarrow>
                             (case cl_get_query_result c (length fetched) conversation_id
                                     message_id attachment_id of
                                Inl e \<Rightarrow> Inl e
                              | Inr query_result \<Rightarrow>
                                  (case table_of DataFrame query_result of
                                     Inl e \<Rightarrow> Inl e
                                   | Inr None \<Rightarrow>
                                       content_pass DataFrame c conversation_id message_id
                                         query_text' (fetched @ [attachment_id]) rest
                                   | Inr (Some df) \<Rightarrow>
                                       Inr (Frame df, query_text', fetched @ [attachment_id]))))
                      else content_pass DataFrame c conversation_id message_id query_text
                             fetched rest)))"

text \<open>
  The whole function. It returns \<open>((result, query_text, suggested_questions), fetched)\<close>:
  the tuple of the source and the ids fetched on the way.
\<close>

definition process_genie_response ::
  "(json \<Rightarrow> json list \<Rightarrow> exn + 'df) \<Rightarrow> client \<Rightarrow> json \<Rightarrow> json \<Rightarrow> json
     \<Rightarrow> exn + (('df result \<times> json \<times> json) \<times> json list)" where
  "process_genie_response DataFrame c conversation_id message_id complete_message =
     try_bind (py_get complete_message ''attachments'' (JList [])) (\<lambda>attachments.
     try_bind (py_len attachments) (\<lambda>_.
     try_bind (py_iter attachments) (\<lambda>entries.
     try_bind (collect_suggested_questions (JList []) entries) (\<lambda>suggested_questions.
     try_bind (content_pass DataFrame c conversation_id message_id JNull [] entries)
       (\<lambda>(result, query_text, fetched).
          if result \<noteq> Value JNull then Inr ((result, query_text, suggested_questions), fetched)
          else
            try_bind (py_in ''content'' complete_message) (\<lambda>has_content.
              if has_content then
                try_bind (py_get complete_message ''content'' (JStr [])) (\<lambda>content.
                  Inr ((Value content, JNull, suggested_questions), fetched))
              else Inr ((Value (JStr ''No response available''), JNull, JList []), fetched)))))))"

section \<open>\<open>start_new_conversation\<close> and \<open>continue_conversation\<close>\<close>

text \<open>
  Both build a \<open>GenieClient\<close> before their \<open>try\<close>; the constructor only asks the token
  collaborator for a bearer string. The results are \<open>None\<close> when the completion poll never
  ends, and otherwise what the function returns (\<open>Inr\<close>) or raises (\<open>Inl\<close>).
\<close>

definition start_new_conversation_try ::
  "(json \<Rightarrow> json list \<Rightarrow> exn + 'df) \<Rightarrow> (nat \<Rightarrow> real) \<Rightarrow> client \<Rightarrow> string
     \<Rightarrow> (exn + (json \<times> 'df result \<times> json \<times> json)) option" where
  "start_new_conversation_try DataFrame clock c question =
     (case cl_start_conversation c question of
        Inl e \<Rightarrow> Some (Inl e)
      | Inr response \<Rightarrow>
          (case py_get response ''conversation_id'' JNull of
             Inl e \<Rightarrow> Some (Inl e)
           | Inr conversation_id \<Rightarrow>
               (case py_get response ''message_id'' JNull of
                  Inl e \<Rightarrow> Some (Inl e)
                | Inr message_id \<Rightarrow>
                    (case wait_for_message_completion clock c conversation_id message_id
                            default_timeout default_poll_interval of
                       None \<Rightarrow> None
                     | Some (Inl e, _) \<Rightarrow> Some (Inl e)
                     | Some (Inr complete_message, _) \<Rightarrow>
                         Some
                           (try_bind (cl_list_conversation_messages c conversation_id)
                              (\<lambda>messages_response.
                            try_bind
                              (resolve_full_message message_id complete_message messages_response)
                              (\<lambda>full_message.
                            try_bind
                              (process_genie_response DataFrame c conversation_id message_id
                                 full_message)
                              (\<lambda>((result, query_text, suggested_questions), _).
                                 Inr (conversation_id, result, query_text,
                                      suggested_questions)))))))))"

definition start_new_conversation ::
  "(json \<Rightarrow> json list \<Rightarrow> exn + 'df) \<Rightarrow> (nat \<Rightarrow> real) \<Rightarrow> client \<Rightarrow> string
     \<Rightarrow> (exn + (json \<times> 'df result \<times> json \<times> json)) option" where
  "start_new_conversation DataFrame clock c question =
     (case start_new_conversation_try DataFrame clock c question of
        None \<Rightarrow> None
      | Some (Inr r) \<Rightarrow> Some (Inr r)
      | Some (Inl e) \<Rightarrow>
          Some (Inr (JNull,
                     Value (JStr (''Sorry, an error occurred: '' @ str e @ ''. Please try again.'')),
                     JNull, JList [])))"




section \<open>Requests\<close>

text \<open>
  \<open>requests\<close> is not part of the repository. A call \<open>requests.post(...)\<close> or
  \<open>requests.get(...)\<close> raises a transport error or returns a response;
  \<open>response.raise_for_status()\<close> raises \<open>HTTPError\<close> for a status from 400 to 599, with the
  message the library builds; \<open>response.json()\<close> returns the decoded body or raises. The
  headers hold the bearer token and do not enter any result.
\<close>

record request =
  http_method :: string
  request_url :: string
  request_json :: "json option"
  request_params :: "(string \<times> string) list"

record http_response =
  status_code :: nat
  reason :: string
  response_url :: string
  response_text :: string
  response_json :: "exn + json"

definition raise_for_status :: "http_response \<Rightarrow> exn + unit" where
  "raise_for_status response =
     (if 400 \<le> status_code response \<and> status_code response < 500 then
        Inl (Exn (HTTPError (status_code response))
               (str_of_nat (status_code response) @ '' Client Error: '' @ reason response
                @ '' for url: '' @ response_url response))
      else if 500 \<le> status_code response \<and> status_code response < 600 then
        Inl (Exn (HTTPError (status_code response))
               (str_of_nat (status_code response) @ '' Server Error: '' @ reason response
                @ '' for url: '' @ response_url response))
      else Inr ())"

definition base_url :: "string \<Rightarrow> string \<Rightarrow> string" where
  "base_url host space_id = ''https://'' @ host @ ''/api/2.0/genie/spaces/'' @ space_id"

section \<open>Feedback\<close>

text \<open>
  \<open>GenieClient.send_message_feedback\<close> (lines 197-231): one POST, no retry decorator; its
  \<open>except\<close> clause logs and re-raises. The function returns its outcome and the requests
  it issued.
\<close>

definition send_message_feedback ::
  "(request \<Rightarrow> exn + http_response) \<Rightarrow> string \<Rightarrow> string \<Rightarrow> string \<Rightarrow> string \<Rightarrow> string
     \<Rightarrow> (exn + json) \<times> request list" where
  "send_message_feedback http host space_id conversation_id message_id feedback_type =
     (let url = base_url host space_id @ ''/conversations/'' @ conversation_id
                @ ''/messages/'' @ message_id @ ''/feedback'';
          rating_value = (if feedback_type = ''positive'' then ''POSITIVE'' else ''NEGATIVE'');
          payload = JDict [(''rating'', JStr rating_value)];
          req = \<lparr>http_method = ''POST'', request_url = url, request_json = Some payload,
                 request_params = []\<rparr>
      in (try_bind (http req) (\<lambda>response.
          try_bind (raise_for_status response) (\<lambda>_.
            if response_text response \<noteq> [] then response_json response else Inr (JDict []))),
          [req]))"

text \<open>
  \<open>send_feedback\<close> (lines 601-647): both \<open>except\<close> clauses log and return \<open>False\<close>; the
  first reads \<open>e.response.status_code\<close> of the \<open>HTTPError\<close>.
\<close>

definition send_feedback ::
  "(request \<Rightarrow> exn + http_response) \<Rightarrow> string \<Rightarrow> string \<Rightarrow> string \<Rightarrow> string \<Rightarrow> string
     \<Rightarrow> (exn + bool) \<times> request list" where
  "send_feedback http host space_id conversation_id message_id feedback_type =
     (case send_message_feedback http host space_id conversation_id message_id feedback_type of
        (Inr result, reqs) \<Rightarrow> (Inr True, reqs)
      | (Inl e, reqs) \<Rightarrow>
          (case kind e of
             HTTPError code \<Rightarrow> (Inr False, reqs)
           | _ \<Rightarrow> (Inr False, reqs)))"

section \<open>The retry decorator and the decorated methods\<close>

text \<open>
  Modelled from the spec: the decorator \<open>backoff.on_exception\<close>, with its wait generator
  \<open>backoff.expo\<close> and \<open>backoff.full_jitter\<close>, belongs to the \<open>backoff\<close> package and is
  missing from the sources; only its arguments are there (\<open>Exception\<close>, \<open>max_tries=5\<close>,
  \<open>factor=2\<close>). Following section 4.1: on any raised error the call is tried again, after a
  delay that starts at the base delay \<open>factor\<close> and doubles with each attempt, the delay
  slept being a random share of the computed one; at \<open>max_tries\<close> attempts the error of the
  last attempt is raised as it is.

  \<open>target k\<close> is what the \<open>k\<close>-th call of the undecorated method returns or raises, and
  \<open>jitter k\<close> the share (a draw from 0 to 1) taken of the \<open>k\<close>-th computed delay. The
  result records the outcome, the number of attempts and the delays slept.
\<close>

record 'a attempts =
  outcome :: "exn + 'a"
  tries :: nat
  waits :: "real list"

function on_exception ::
  "nat \<Rightarrow> real \<Rightarrow> (nat \<Rightarrow> real) \<Rightarrow> (nat \<Rightarrow> exn + 'a) \<Rightarrow> nat \<Rightarrow> 'a attempts" where
  "on_exception max_tries factor jitter target n =
     (case target (Suc n) of
        Inr v \<Rightarrow> \<lparr>outcome = Inr v, tries = Suc n, waits = []\<rparr>
      | Inl e \<Rightarrow>
          if max_tries \<le> Suc n then \<lparr>outcome = Inl e, tries = Suc n, waits = []\<rparr>
          else
            (let r = on_exception max_tries factor jitter target (Suc n)
             in r\<lparr>waits := jitter (Suc n) * (factor * 2 ^ n) # waits r\<rparr>))"
  by pat_completeness auto
termination
  by (relation "measure (\<lambda>(max_tries, factor, jitter, target, n). max_tries - n)") auto

declare on_exception.simps [simp del]

text \<open>The decorator as every decorated method of \<open>GenieClient\<close> carries it.\<close>

definition with_backoff :: "(nat \<Rightarrow> real) \<Rightarrow> (nat \<Rightarrow> exn + 'a) \<Rightarrow> 'a attempts" where
  "with_backoff jitter target = on_exception 5 2 jitter target 0"

text \<open>
  The body shared by the decorated methods: issue the request, \<open>raise_for_status()\<close>,
  \<open>response.json()\<close>. \<open>http k req\<close> is the answer of the network to \<open>req\<close> at the \<open>k\<close>-th
  attempt.
\<close>

definition fetch_json :: "(exn + http_response) \<Rightarrow> exn + json" where
  "fetch_json answer =
     try_bind answer (\<lambda>response.
     try_bind (raise_for_status response) (\<lambda>_. response_json response))"

definition start_conversation ::
  "(nat \<Rightarrow> request \<Rightarrow> exn + http_response) \<Rightarrow> (nat \<Rightarrow> real) \<Rightarrow> string \<Rightarrow> string \<Rightarrow> string
     \<Rightarrow> json attempts" where
  "start_conversation http jitter host space_id question =
     with_backoff jitter (\<lambda>k.
       fetch_json (http k
         \<lparr>http_method = ''POST'',
          request_url = base_url host space_id @ ''/start-conversation'',
          request_json = Some (JDict [(''content'', JStr question)]),
          request_params = []\<rparr>))"


definition get_message ::
  "(nat \<Rightarrow> request \<Rightarrow> exn + http_response) \<Rightarrow> (nat \<Rightarrow> real) \<Rightarrow> string \<Rightarrow> string \<Rightarrow> string
     \<Rightarrow> string \<Rightarrow> json attempts" where
  "get_message http jitter host space_id conversation_id message_id =
     with_backoff jitter (\<lambda>k.
       fetch_json (http k
         \<lparr>http_method = ''GET'',
          request_url = base_url host space_id @ ''/conversations/'' @ conversation_id
                        @ ''/messages/'' @ message_id,
          request_json = None,
          request_params = []\<rparr>))"

definition list_conversation_messages ::
  "(nat \<Rightarrow> request \<Rightarrow> exn + http_response) \<Rightarrow> (nat \<Rightarrow> real) \<Rightarrow> string \<Rightarrow> string \<Rightarrow> string
     \<Rightarrow> json attempts" where
  "list_conversation_messages http jitter host space_id conversation_id =
     with_backoff jitter (\<lambda>k.
       fetch_json (http k
         \<lparr>http_method = ''GET'',
          request_url = base_url host space_id @ ''/conversations/'' @ conversation_id
                        @ ''/messages'',
          request_json = None,
          request_params = []\<rparr>))"

text \<open>Lines 145-154 of \<open>get_query_result\<close>: what it builds from the decoded body.\<close>

definition extract_query_result :: "json \<Rightarrow> exn + json" where
  "extract_query_result result =
     try_bind
       (try_bind (py_in ''statement_response'' result) (\<lambda>b1.
          if b1 then
            try_bind (py_getitem result ''statement_response'') (\<lambda>sr.
            try_bind (py_in ''result'' sr) (\<lambda>b2.
              if b2 then
                try_bind (py_getitem sr ''result'') (\<lambda>r. py_get r ''data_array'' (JList []))
              else Inr (JList [])))
          else Inr (JList [])))
       (\<lambda>data_array.
     try_bind (py_get result ''statement_response'' (JDict [])) (\<lambda>sr.
     try_bind (py_get sr ''manifest'' (JDict [])) (\<lambda>manifest.
     try_bind (py_get manifest ''schema'' (JDict [])) (\<lambda>schema.
       Inr (JDict [(''data_array'', data_array), (''schema'', schema)])))))"

definition get_query_result ::
  "(nat \<Rightarrow> request \<Rightarrow> exn + http_response) \<Rightarrow> (nat \<Rightarrow> real) \<Rightarrow> string \<Rightarrow> string \<Rightarrow> string
     \<Rightarrow> string \<Rightarrow> string \<Rightarrow> json attempts" where
  "get_query_result http jitter host space_id conversation_id message_id attachment_id =
     with_backoff jitter (\<lambda>k.
       try_bind
         (fetch_json (http k
            \<lparr>http_method = ''GET'',
             request_url = base_url host space_id @ ''/conversations/'' @ conversation_id
                           @ ''/messages/'' @ message_id @ ''/attachments/'' @ attachment_id
                           @ ''/query-result'',
             request_json = None,
             request_params = []\<rparr>))
         extract_query_result)"

definition execute_query ::
  "(nat \<Rightarrow> request \<Rightarrow> exn + http_response) \<Rightarrow> (nat \<Rightarrow> real) \<Rightarrow> string \<Rightarrow> string \<Rightarrow> string
     \<Rightarrow> string \<Rightarrow> string \<Rightarrow> json attempts" where
  "execute_query http jitter host space_id conversation_id message_id attachment_id =
     with_backoff jitter (\<lambda>k.
       fetch_json (http k
         \<lparr>http_method = ''POST'',
          request_url = base_url host space_id @ ''/conversations/'' @ conversation_id
                        @ ''/messages/'' @ message_id @ ''/attachments/'' @ attachment_id
                        @ ''/execute-query'',
          request_json = None,
          request_params = []\<rparr>))"

definition get_space_details ::
  "(nat \<Rightarrow> request \<Rightarrow> exn + http_response) \<Rightarrow> (nat \<Rightarrow> real) \<Rightarrow> string \<Rightarrow> string
     \<Rightarrow> json attempts" where
  "get_space_details http jitter host space_id =
     with_backoff jitter (\<lambda>k.
       fetch_json (http k
         \<lparr>http_method = ''GET'',
          request_url = ''https://'' @ host @ ''/api/2.0/genie/spaces/'' @ space_id,
          request_json = None,
          request_params = [(''include_serialized_space'', ''true'')]\<rparr>))"

section \<open>Scenarios\<close>

text \<open>
  A client whose methods never fail: the submission answers \<open>submitted\<close>, the \<open>k\<close>-th poll
  answers \<open>polled k\<close>, the list endpoint answers \<open>listing\<close>, and the \<open>k\<close>-th query-result
  fetch answers \<open>results k\<close>.
\<close>

definition scripted_client :: "json \<Rightarrow> (nat \<Rightarrow> json) \<Rightarrow> json \<Rightarrow> (nat \<Rightarrow> json) \<Rightarrow> client" where
  "scripted_client submitted polled listing results =
     \<lparr>cl_start_conversation = (\<lambda>_. Inr submitted),
      cl_send_message = (\<lambda>_ _. Inr submitted),
      cl_get_message = (\<lambda>k _ _. Inr (polled k)),
      cl_list_conversation_messages = (\<lambda>_. Inr listing),
      cl_get_query_result = (\<lambda>k _ _ _. Inr (results k))\<rparr>"

section \<open>Properties of the completion poller\<close>

text \<open>
  A poll is non-terminal when the fetch returns a message whose status is none of
  \<open>COMPLETED\<close>, \<open>ERROR\<close>, \<open>FAILED\<close>, and terminal with message \<open>m\<close> when it returns \<open>m\<close> and
  the status of \<open>m\<close> is one of the three.
\<close>

definition nonterminal_poll :: "exn + json \<Rightarrow> bool" where
  "nonterminal_poll r =
     (case r of
        Inl e \<Rightarrow> False
      | Inr m \<Rightarrow>
          (case py_get m ''status'' JNull of Inl e \<Rightarrow> False | Inr s \<Rightarrow> \<not> is_terminal s))"

definition terminal_poll :: "exn + json \<Rightarrow> json \<Rightarrow> bool" where
  "terminal_poll r m =
     (r = Inr m \<and>
      (case py_get m ''status'' JNull of Inl e \<Rightarrow> False | Inr s \<Rightarrow> is_terminal s))"

section \<open>Properties of the answer lookup\<close>

text \<open>The identifier of a message entry, \<open>msg.get("message_id")\<close>.\<close>

definition entry_id :: "json \<Rightarrow> json" where
  "entry_id msg = (case py_get msg ''message_id'' JNull of Inl e \<Rightarrow> JNull | Inr v \<Rightarrow> v)"

section \<open>Properties of the normalizer\<close>

text \<open>
  An attachment the second pass steps over: a dict with no inline text content and no
  \<open>query\<close> key.
\<close>

definition inert :: "json \<Rightarrow> bool" where
  "inert attachment =
     (is_dict attachment \<and> has_text_content attachment = Inr False
      \<and> py_in ''query'' attachment = Inr False)"

text \<open>
  The same on the data of an attachment: its \<open>text\<close> field is absent or an object with no
  \<open>content\<close> key; it is an object with no inline text content and no \<open>query\<close> key.
\<close>

definition no_text_content :: "(string \<times> json) list \<Rightarrow> bool" where
  "no_text_content kvs =
     (case map_of kvs ''text'' of
        None \<Rightarrow> True
      | Some (JDict t) \<Rightarrow> map_of t ''content'' = None
      | Some _ \<Rightarrow> False)"

definition passed_over :: "json \<Rightarrow> bool" where
  "passed_over attachment =
     (case attachment of
        JDict kvs \<Rightarrow> no_text_content kvs \<and> map_of kvs ''query'' = None
      | _ \<Rightarrow> False)"





text \<open>The top-level \<open>content\<close> field of a message, when it has one.\<close>

definition top_level_content :: "json \<Rightarrow> json option" where
  "top_level_content msg = (case msg of JDict kvs \<Rightarrow> map_of kvs ''content'' | _ \<Rightarrow> None)"

text \<open>
  What the function returns once the second pass has ended without a result (lines
  491-497), given the suggestions of the first pass and the ids fetched.
\<close>

definition fallback_result ::
  "json \<Rightarrow> json \<Rightarrow> json list \<Rightarrow> ('df result \<times> json \<times> json) \<times> json list" where
  "fallback_result msg suggested_questions fetched =
     (case top_level_content msg of
        Some content \<Rightarrow> ((Value content, JNull, suggested_questions), fetched)
      | None \<Rightarrow> ((Value (JStr ''No response available''), JNull, JList []), fetched))"

text \<open>
  The \<open>questions\<close> value of an attachment whose \<open>suggested_questions\<close> payload is a dict
  with that key, and the value carried by the last such attachment of a list.
\<close>

definition payload_questions :: "json \<Rightarrow> json option" where
  "payload_questions attachment =
     (case attachment of
        JDict kvs \<Rightarrow>
          (case map_of kvs ''suggested_questions'' of
             Some (JDict qs) \<Rightarrow> map_of qs ''questions''
           | _ \<Rightarrow> None)
      | _ \<Rightarrow> None)"

fun last_questions :: "json \<Rightarrow> json list \<Rightarrow> json" where
  "last_questions sq [] = sq"
| "last_questions sq (attachment # rest) =
     (case payload_questions attachment of
        Some questions \<Rightarrow> last_questions questions rest
      | None \<Rightarrow> last_questions sq rest)"

text \<open>A table constructor that keeps what it is given.\<close>

definition plain_table :: "json \<Rightarrow> json list \<Rightarrow> exn + (json \<times> json list)" where
  "plain_table data_array columns = Inr (data_array, columns)"

text \<open>
  An attachment with a query specification and no inline text content: \<open>aid\<close> is its
  attachment id and \<open>qtext\<close> the query text the second pass reads from it.
\<close>

definition query_attachment :: "json \<Rightarrow> json \<Rightarrow> json \<Rightarrow> bool" where
  "query_attachment attachment aid qtext =
     (has_text_content attachment = Inr False
      \<and> py_in ''query'' attachment = Inr True
      \<and> query_of attachment = Inr qtext
      \<and> py_get attachment ''attachment_id'' JNull = Inr aid)"

text \<open>A client that answers \<open>None\<close> to every call.\<close>

definition idle_client :: client where
  "idle_client = scripted_client JNull (\<lambda>_. JNull) JNull (\<lambda>_. JNull)"


text \<open>
  A network that answers every request with 404 Not Found, one that answers 200 with an
  empty JSON object, and one that fails twice at the transport level before it answers 200
  with a statement result of one row.
\<close>

definition always_404 :: "nat \<Rightarrow> request \<Rightarrow> exn + http_response" where
  "always_404 k req =
     Inr \<lparr>status_code = 404, reason = ''Not Found'', response_url = request_url req,
          response_text = [], response_json = Inl (Exn JSONDecodeError ''Expecting value'')\<rparr>"

definition always_200 :: "request \<Rightarrow> exn + http_response" where
  "always_200 req =
     Inr \<lparr>status_code = 200, reason = ''OK'', response_url = request_url req,
          response_text = ''{}'', response_json = Inr (JDict [])\<rparr>"

definition always_403 :: "request \<Rightarrow> exn + http_response" where
  "always_403 req =
     Inr \<lparr>status_code = 403, reason = ''Forbidden'', response_url = request_url req,
          response_text = [], response_json = Inl (Exn JSONDecodeError ''Expecting value'')\<rparr>"

definition flaky_network :: "nat \<Rightarrow> request \<Rightarrow> exn + http_response" where
  "flaky_network k req =
     (if k < 3 then Inl (Exn RequestException ''Connection aborted.'')
      else Inr \<lparr>status_code = 200, reason = ''OK'', response_url = request_url req,
                response_text = ''{...}'',
                response_json =
                  Inr (JDict [(''statement_response'',
                         JDict [(''result'', JDict [(''data_array'', JList [JList [JStr ''1'']])])])])\<rparr>)"

text \<open>Jitter that always takes the whole computed delay, and a clock that stands still.\<close>

definition no_jitter :: "nat \<Rightarrow> real" where
  "no_jitter k = 1"






section \<open>Properties of the feedback operation\<close>

text \<open>The one request \<open>send_message_feedback\<close> issues for a rating token.\<close>

definition feedback_request :: "string \<Rightarrow> string \<Rightarrow> string \<Rightarrow> string \<Rightarrow> string \<Rightarrow> request" where
  "feedback_request host space_id conversation_id message_id rating =
     \<lparr>http_method = ''POST'',
      request_url = base_url host space_id @ ''/conversations/'' @ conversation_id
                    @ ''/messages/'' @ message_id @ ''/feedback'',
      request_json = Some (JDict [(''rating'', JStr rating)]),
      request_params = []\<rparr>"

section \<open>Theorems: the completion poller\<close>

lemma all_less_1: "(\<forall>k<(1::nat). P k) = P 0"
  by auto

lemma all_less_2: "(\<forall>k<(2::nat). P k) = (P 0 \<and> P 1)"
  by (auto simp: less_2_cases_iff)

lemma poll_loop_nonterminal_step:
  assumes "clock (clock_reads st) - start < real_of_int timeout"
    and "nonterminal_poll (cl_get_message c (polls st) cid mid)"
  shows "poll_loop clock c cid mid start timeout iv st =
         poll_loop clock c cid mid start timeout iv
           (st\<lparr>clock_reads := Suc (clock_reads st), polls := Suc (polls st),
               sleeps := sleeps st @ [iv]\<rparr>)"
  using assms
  by (subst poll_loop.simps)
     (auto simp: Let_def nonterminal_poll_def split: sum.splits)

lemma poll_loop_nonterminal_run:
  assumes "\<forall>k<N. clock (Suc k) - start < real_of_int timeout
                 \<and> nonterminal_poll (cl_get_message c k cid mid)"
  shows "poll_loop clock c cid mid start timeout iv \<lparr>clock_reads = 1, polls = 0, sleeps = []\<rparr> =
         poll_loop clock c cid mid start timeout iv
           \<lparr>clock_reads = Suc N, polls = N, sleeps = replicate N iv\<rparr>"
  using assms
proof (induction N)
  case 0
  then show ?case by simp
next
  case (Suc N)
  have "poll_loop clock c cid mid start timeout iv
           \<lparr>clock_reads = Suc N, polls = N, sleeps = replicate N iv\<rparr> =
        poll_loop clock c cid mid start timeout iv
           \<lparr>clock_reads = Suc (Suc N), polls = Suc N, sleeps = replicate N iv @ [iv]\<rparr>"
    using Suc.prems
      poll_loop_nonterminal_step
        [of clock "\<lparr>clock_reads = Suc N, polls = N, sleeps = replicate N iv\<rparr>"
            start timeout c cid mid iv]
    by simp
  with Suc show ?case by (simp add: replicate_append_same)
qed

lemma poll_loop_terminal_step:
  assumes "clock (clock_reads st) - start < real_of_int timeout"
    and "terminal_poll (cl_get_message c (polls st) cid mid) m"
  shows "poll_loop clock c cid mid start timeout iv st =
         Some (Inr m, st\<lparr>clock_reads := Suc (clock_reads st), polls := Suc (polls st)\<rparr>)"
  using assms
  by (subst poll_loop.simps)
     (auto simp: Let_def terminal_poll_def split: sum.splits)

lemma poll_loop_timeout_step:
  assumes "\<not> clock (clock_reads st) - start < real_of_int timeout"
  shows "poll_loop clock c cid mid start timeout iv st =
         Some (Inl (timeout_error timeout), st\<lparr>clock_reads := Suc (clock_reads st)\<rparr>)"
  using assms
  by (subst poll_loop.simps) (simp add: Let_def)

lemma py_eq_str: "py_eq a (JStr s) = (a = JStr s)"
  by (cases a) auto

lemma is_terminal_iff:
  "is_terminal s = (s = JStr ''COMPLETED'' \<or> s = JStr ''ERROR'' \<or> s = JStr ''FAILED'')"
  by (simp add: is_terminal_def py_eq_str)

lemma nonterminal_poll_dict:
  assumes "r = Inr (JDict kvs)"
    and "map_of kvs ''status'' \<notin>
           {Some (JStr ''COMPLETED''), Some (JStr ''ERROR''), Some (JStr ''FAILED'')}"
  shows "nonterminal_poll r"
  using assms
  by (auto simp: nonterminal_poll_def is_terminal_iff split: option.splits)

lemma terminal_poll_dict:
  assumes "r = Inr (JDict kvs)"
    and "map_of kvs ''status'' \<in>
           {Some (JStr ''COMPLETED''), Some (JStr ''ERROR''), Some (JStr ''FAILED'')}"
  shows "terminal_poll r (JDict kvs)"
  using assms
  by (auto simp: terminal_poll_def is_terminal_iff split: option.splits)

text \<open>
  Claim C2. Let the first \<open>N\<close> polls return messages whose status is none of
  \<open>COMPLETED\<close>, \<open>ERROR\<close>, \<open>FAILED\<close> (a message with no status included), each begun while
  the elapsed time read at the head of the loop is below the timeout. If the next head of
  the loop is also in time and the next poll returns a message \<open>m\<close> whose status is
  \<open>COMPLETED\<close>, \<open>ERROR\<close> or \<open>FAILED\<close>, the poller returns \<open>m\<close> as data after exactly
  \<open>N + 1\<close> fetches (and \<open>N\<close> sleeps). If instead the elapsed time read at the next head of
  the loop has reached the timeout, the poller raises \<open>TimeoutError\<close> with exactly the \<open>N\<close>
  fetches made so far and no further one.
\<close>

theorem wait_for_message_completion_polls:
  assumes "\<forall>k<N. clock (Suc k) - clock 0 < real_of_int timeout
                 \<and> cl_get_message c k cid mid = Inr (JDict (polled k))
                 \<and> map_of (polled k) ''status'' \<notin>
                     {Some (JStr ''COMPLETED''), Some (JStr ''ERROR''), Some (JStr ''FAILED'')}"
  shows "(clock (Suc N) - clock 0 < real_of_int timeout
            \<and> cl_get_message c N cid mid = Inr (JDict m)
            \<and> map_of m ''status'' \<in>
                {Some (JStr ''COMPLETED''), Some (JStr ''ERROR''), Some (JStr ''FAILED'')} \<longrightarrow>
          wait_for_message_completion clock c cid mid timeout iv =
            Some (Inr (JDict m),
                  \<lparr>clock_reads = N + 2, polls = N + 1, sleeps = replicate N iv\<rparr>))
       \<and> (\<not> clock (Suc N) - clock 0 < real_of_int timeout \<longrightarrow>
          wait_for_message_completion clock c cid mid timeout iv =
            Some (Inl (Exn TimeoutError
                         (''Message processing timed out after '' @ str_of_int timeout
                          @ '' seconds'')),
                  \<lparr>clock_reads = N + 2, polls = N, sleeps = replicate N iv\<rparr>))"
proof -
  have run: "\<forall>k<N. clock (Suc k) - clock 0 < real_of_int timeout
                 \<and> nonterminal_poll (cl_get_message c k cid mid)"
    using assms nonterminal_poll_dict by blast
  have loop: "poll_loop clock c cid mid (clock 0) timeout iv
                \<lparr>clock_reads = 1, polls = 0, sleeps = []\<rparr> =
              poll_loop clock c cid mid (clock 0) timeout iv
                \<lparr>clock_reads = Suc N, polls = N, sleeps = replicate N iv\<rparr>"
    using poll_loop_nonterminal_run [OF run, of iv] .
  show ?thesis
  proof (intro conjI impI)
    assume a: "clock (Suc N) - clock 0 < real_of_int timeout
            \<and> cl_get_message c N cid mid = Inr (JDict m)
            \<and> map_of m ''status'' \<in>
                {Some (JStr ''COMPLETED''), Some (JStr ''ERROR''), Some (JStr ''FAILED'')}"
    then have t: "terminal_poll (cl_get_message c N cid mid) (JDict m)"
      using terminal_poll_dict by blast
    show "wait_for_message_completion clock c cid mid timeout iv =
            Some (Inr (JDict m),
                  \<lparr>clock_reads = N + 2, polls = N + 1, sleeps = replicate N iv\<rparr>)"
      unfolding wait_for_message_completion_def loop
      using a t
        poll_loop_terminal_step
          [of clock "\<lparr>clock_reads = Suc N, polls = N, sleeps = replicate N iv\<rparr>"
              "clock 0" timeout c cid mid "JDict m" iv]
      by simp
  next
    assume a: "\<not> clock (Suc N) - clock 0 < real_of_int timeout"
    show "wait_for_message_completion clock c cid mid timeout iv =
            Some (Inl (Exn TimeoutError
                         (''Message processing timed out after '' @ str_of_int timeout
                          @ '' seconds'')),
                  \<lparr>clock_reads = N + 2, polls = N, sleeps = replicate N iv\<rparr>)"
      unfolding wait_for_message_completion_def loop
      using a
        poll_loop_timeout_step
          [of clock "\<lparr>clock_reads = Suc N, polls = N, sleeps = replicate N iv\<rparr>"
              "clock 0" timeout c cid mid iv]
      by (simp add: timeout_error_def)
  qed
qed

text \<open>
  With the defaults (300 seconds, 2 seconds between polls), on a clock that advances 2
  seconds per read: two polls in progress and then \<open>COMPLETED\<close>, three fetches; \<open>ERROR\<close>
  at the first poll, one fetch; a message with no status and then \<open>FAILED\<close>, two fetches;
  each time the message is returned. On a clock that advances 200 seconds per read the
  second head of the loop is past the timeout, and \<open>TimeoutError\<close> is raised after one
  fetch.
\<close>

theorem wait_for_message_completion_polls_witness:
  "wait_for_message_completion (\<lambda>k. 2 * real k)
     (scripted_client JNull
        (\<lambda>k. if k < 2 then JDict [(''status'', JStr ''EXECUTING_QUERY'')]
             else JDict [(''status'', JStr ''COMPLETED'')])
        JNull (\<lambda>_. JNull))
     (JStr ''c'') (JStr ''m'') default_timeout default_poll_interval =
   Some (Inr (JDict [(''status'', JStr ''COMPLETED'')]),
         \<lparr>clock_reads = 4, polls = 3, sleeps = [2, 2]\<rparr>)
   \<and>
   wait_for_message_completion (\<lambda>k. 2 * real k)
     (scripted_client JNull (\<lambda>k. JDict [(''status'', JStr ''ERROR'')]) JNull (\<lambda>_. JNull))
     (JStr ''c'') (JStr ''m'') default_timeout default_poll_interval =
   Some (Inr (JDict [(''status'', JStr ''ERROR'')]),
         \<lparr>clock_reads = 2, polls = 1, sleeps = []\<rparr>)
   \<and>
   wait_for_message_completion (\<lambda>k. 2 * real k)
     (scripted_client JNull
        (\<lambda>k. if k < 1 then JDict [] else JDict [(''status'', JStr ''FAILED'')])
        JNull (\<lambda>_. JNull))
     (JStr ''c'') (JStr ''m'') default_timeout default_poll_interval =
   Some (Inr (JDict [(''status'', JStr ''FAILED'')]),
         \<lparr>clock_reads = 3, polls = 2, sleeps = [2]\<rparr>)
   \<and>
   wait_for_message_completion (\<lambda>k. 200 * real k)
     (scripted_client JNull (\<lambda>k. JDict [(''status'', JStr ''EXECUTING_QUERY'')]) JNull
        (\<lambda>_. JNull))
     (JStr ''c'') (JStr ''m'') default_timeout default_poll_interval =
   Some (Inl (Exn TimeoutError ''Message processing timed out after 300 seconds''),
         \<lparr>clock_reads = 3, polls = 1, sleeps = [2]\<rparr>)"
proof -
  let ?run = "\<lambda>k. if k < 2 then [(''status'', JStr ''EXECUTING_QUERY'')]
                   else [(''status'', JStr ''COMPLETED'')]"
  let ?c1 = "scripted_client JNull
        (\<lambda>k. if k < 2 then JDict [(''status'', JStr ''EXECUTING_QUERY'')]
             else JDict [(''status'', JStr ''COMPLETED'')])
        JNull (\<lambda>_. JNull)"
  let ?c2 = "scripted_client JNull (\<lambda>k. JDict [(''status'', JStr ''ERROR'')]) JNull
        (\<lambda>_. JNull)"
  let ?c3 = "scripted_client JNull
        (\<lambda>k. if k < 1 then JDict [] else JDict [(''status'', JStr ''FAILED'')])
        JNull (\<lambda>_. JNull)"
  let ?c4 = "scripted_client JNull (\<lambda>k. JDict [(''status'', JStr ''EXECUTING_QUERY'')]) JNull
        (\<lambda>_. JNull)"
  have a: "\<forall>k<2. (\<lambda>k. 2 * real k) (Suc k) - (\<lambda>k. 2 * real k) 0 < real_of_int default_timeout
        \<and> cl_get_message ?c1 k (JStr ''c'') (JStr ''m'') = Inr (JDict (?run k))
        \<and> map_of (?run k) ''status'' \<notin>
            {Some (JStr ''COMPLETED''), Some (JStr ''ERROR''), Some (JStr ''FAILED'')}"
    by (simp add: all_less_2 default_timeout_def scripted_client_def)
  have b: "\<forall>k<0. (\<lambda>k. 2 * real k) (Suc k) - (\<lambda>k. 2 * real k) 0 < real_of_int default_timeout
        \<and> cl_get_message ?c2 k (JStr ''c'') (JStr ''m'') = Inr (JDict ((\<lambda>_. []) k))
        \<and> map_of ((\<lambda>_. []) k) ''status'' \<notin>
            {Some (JStr ''COMPLETED''), Some (JStr ''ERROR''), Some (JStr ''FAILED'')}"
    by simp
  have c: "\<forall>k<1. (\<lambda>k. 2 * real k) (Suc k) - (\<lambda>k. 2 * real k) 0 < real_of_int default_timeout
        \<and> cl_get_message ?c3 k (JStr ''c'') (JStr ''m'') = Inr (JDict ((\<lambda>_. []) k))
        \<and> map_of ((\<lambda>_. []) k) ''status'' \<notin>
            {Some (JStr ''COMPLETED''), Some (JStr ''ERROR''), Some (JStr ''FAILED'')}"
    by (simp add: default_timeout_def scripted_client_def)
  have d: "\<forall>k<1. (\<lambda>k. 200 * real k) (Suc k) - (\<lambda>k. 200 * real k) 0
                    < real_of_int default_timeout
        \<and> cl_get_message ?c4 k (JStr ''c'') (JStr ''m'')
            = Inr (JDict ((\<lambda>_. [(''status'', JStr ''EXECUTING_QUERY'')]) k))
        \<and> map_of ((\<lambda>_. [(''status'', JStr ''EXECUTING_QUERY'')]) k) ''status'' \<notin>
            {Some (JStr ''COMPLETED''), Some (JStr ''ERROR''), Some (JStr ''FAILED'')}"
    by (simp add: default_timeout_def scripted_client_def)
  have s: "str_of_int 300 = ''300''"
    by (simp add: str_of_int_def)
  show ?thesis
    using wait_for_message_completion_polls
            [OF a, of "[(''status'', JStr ''COMPLETED'')]" default_poll_interval]
          wait_for_message_completion_polls
            [OF b, of "[(''status'', JStr ''ERROR'')]" default_poll_interval]
          wait_for_message_completion_polls
            [OF c, of "[(''status'', JStr ''FAILED'')]" default_poll_interval]
          wait_for_message_completion_polls [OF d, of "[]" default_poll_interval]
    by (simp add: default_timeout_def default_poll_interval_def scripted_client_def s
          numeral_2_eq_2)
qed

section \<open>Theorems: the answer lookup\<close>

lemma py_get_is_dict: "is_dict m \<Longrightarrow> \<exists>v. py_get m k d = Inr v"
  by (cases m) auto

lemma py_get_entry_id: "is_dict m \<Longrightarrow> py_get m ''message_id'' JNull = Inr (entry_id m)"
  by (cases m) (auto simp: entry_id_def)

lemma scan_messages_step:
  assumes "is_dict msg"
  shows "scan_messages mid ms i (msg # rest) =
     (if py_eq (entry_id msg) mid then
        (if i + 1 < length ms then
           (case py_get (ms ! (i + 1)) ''message_id'' JNull of
              Inl e \<Rightarrow> Inl e | Inr _ \<Rightarrow> Inr (ms ! (i + 1)))
         else Inr JNull)
      else scan_messages mid ms (i + 1) rest)"
  using py_get_is_dict [OF assms, of "''role''" "JStr ''unknown''"]
  by (auto simp: py_get_entry_id [OF assms])

lemma scan_messages_found:
  assumes "list_all is_dict ms" "i < length ms" "py_eq (entry_id (ms ! i)) mid"
  shows "k \<le> i \<Longrightarrow> (\<forall>j. k \<le> j \<and> j < i \<longrightarrow> \<not> py_eq (entry_id (ms ! j)) mid) \<Longrightarrow>
         scan_messages mid ms k (drop k ms) =
           (if i + 1 < length ms then Inr (ms ! (i + 1)) else Inr JNull)"
proof (induction "i - k" arbitrary: k)
  case 0
  then have k: "k = i" by simp
  have d: "drop i ms = ms ! i # drop (Suc i) ms"
    using assms(2) by (simp add: Cons_nth_drop_Suc)
  have di: "is_dict (ms ! i)"
    using assms(1,2) by (simp add: list_all_length)
  show ?case
  proof (cases "i + 1 < length ms")
    case True
    then have "is_dict (ms ! (i + 1))"
      using assms(1) by (simp add: list_all_length)
    then show ?thesis
      using True assms(3) py_get_entry_id [of "ms ! (i + 1)"]
      by (simp add: k d scan_messages_step [OF di] del: scan_messages.simps)
  next
    case False
    then show ?thesis
      using assms(3) by (simp add: k d scan_messages_step [OF di] del: scan_messages.simps)
  qed
next
  case (Suc n)
  then have lt: "k < i" by simp
  then have kl: "k < length ms" using assms(2) by simp
  have d: "drop k ms = ms ! k # drop (Suc k) ms"
    using kl by (simp add: Cons_nth_drop_Suc)
  have dk: "is_dict (ms ! k)"
    using assms(1) kl by (simp add: list_all_length)
  have ne: "\<not> py_eq (entry_id (ms ! k)) mid"
    using Suc.prems(2) lt by simp
  have "scan_messages mid ms (Suc k) (drop (Suc k) ms) =
          (if i + 1 < length ms then Inr (ms ! (i + 1)) else Inr JNull)"
    using Suc.hyps(1) [of "Suc k"] Suc.hyps(2) Suc.prems lt by simp
  then show ?case
    using ne by (simp add: d scan_messages_step [OF dk] del: scan_messages.simps)
qed

lemma scan_messages_not_found:
  assumes "list_all is_dict ms"
  shows "k \<le> length ms \<Longrightarrow> (\<forall>j. k \<le> j \<and> j < length ms \<longrightarrow> \<not> py_eq (entry_id (ms ! j)) mid) \<Longrightarrow>
         scan_messages mid ms k (drop k ms) = Inr JNull"
proof (induction "length ms - k" arbitrary: k)
  case 0
  then show ?case by simp
next
  case (Suc n)
  then have kl: "k < length ms" by simp
  have d: "drop k ms = ms ! k # drop (Suc k) ms"
    using kl by (simp add: Cons_nth_drop_Suc)
  have dk: "is_dict (ms ! k)"
    using assms(1) kl by (simp add: list_all_length)
  have ne: "\<not> py_eq (entry_id (ms ! k)) mid"
    using Suc.prems(2) kl by simp
  have "scan_messages mid ms (Suc k) (drop (Suc k) ms) = Inr JNull"
    using Suc.hyps(1) [of "Suc k"] Suc.hyps(2) Suc.prems kl by simp
  then show ?case
    using ne by (simp add: d scan_messages_step [OF dk] del: scan_messages.simps)
qed

lemma is_dict_truthy: "is_dict m \<Longrightarrow> py_truthy m = (m \<noteq> JDict [])"
  by (cases m) auto

text \<open>
  Claim C1. Let the entries of the message list be dicts and let \<open>i\<close> be the first index
  whose identifier equals the submitted message id. If the entry has a successor (and the
  successor is not the empty object), the resolver selects entry \<open>i + 1\<close>. If the
  identified entry is the last one, or no entry carries the submitted id and the list is not
  empty, the last entry of the list is selected. If the list is empty, the message obtained
  from the completion poll is used.
\<close>

theorem resolve_full_message_successor:
  assumes resp: "py_get messages_response ''messages'' (JList []) = Inr (JList ms)"
    and dicts: "list_all is_dict ms"
    and first: "\<forall>j<i. \<not> py_eq (entry_id (ms ! j)) message_id"
  shows "(i + 1 < length ms \<and> py_eq (entry_id (ms ! i)) message_id \<and> ms ! (i + 1) \<noteq> JDict [] \<longrightarrow>
            resolve_full_message message_id complete_message messages_response
              = Inr (ms ! (i + 1)))
       \<and> (i + 1 = length ms \<and> py_eq (entry_id (ms ! i)) message_id \<longrightarrow>
            resolve_full_message message_id complete_message messages_response
              = Inr (last ms))
       \<and> (i = length ms \<and> ms \<noteq> [] \<longrightarrow>
            resolve_full_message message_id complete_message messages_response
              = Inr (last ms))
       \<and> (ms = [] \<longrightarrow>
            resolve_full_message message_id complete_message messages_response
              = Inr complete_message)"
proof (intro conjI impI)
  assume a: "i + 1 < length ms \<and> py_eq (entry_id (ms ! i)) message_id \<and> ms ! (i + 1) \<noteq> JDict []"
  then have s: "scan_messages message_id ms 0 ms = Inr (ms ! (i + 1))"
    using scan_messages_found [OF dicts, of i message_id 0] first by simp
  have "is_dict (ms ! (i + 1))"
    using a dicts by (simp add: list_all_length)
  then have "py_truthy (ms ! (i + 1))"
    using a by (simp add: is_dict_truthy)
  then show "resolve_full_message message_id complete_message messages_response
              = Inr (ms ! (i + 1))"
    using s a by (simp add: resolve_full_message_def resp try_bind_def)
next
  assume a: "i + 1 = length ms \<and> py_eq (entry_id (ms ! i)) message_id"
  then have s: "scan_messages message_id ms 0 ms = Inr JNull"
    using scan_messages_found [OF dicts, of i message_id 0] first by simp
  have ne: "ms \<noteq> []" using a by auto
  then have "is_dict (last ms)"
    using dicts by (simp add: list_all_iff)
  then obtain v where "py_get (last ms) ''message_id'' JNull = Inr v"
    using py_get_is_dict by blast
  then show "resolve_full_message message_id complete_message messages_response = Inr (last ms)"
    using s ne by (simp add: resolve_full_message_def resp try_bind_def)
next
  assume a: "i = length ms \<and> ms \<noteq> []"
  then have s: "scan_messages message_id ms 0 ms = Inr JNull"
    using scan_messages_not_found [OF dicts, of 0 message_id] first by simp
  have "is_dict (last ms)"
    using dicts a by (simp add: list_all_iff)
  then obtain v where "py_get (last ms) ''message_id'' JNull = Inr v"
    using py_get_is_dict by blast
  then show "resolve_full_message message_id complete_message messages_response = Inr (last ms)"
    using s a by (simp add: resolve_full_message_def resp try_bind_def)
next
  assume "ms = []"
  then show "resolve_full_message message_id complete_message messages_response
               = Inr complete_message"
    by (simp add: resolve_full_message_def resp try_bind_def)
qed

text \<open>
  Three entries with the submitted id first: the second entry is selected. The submitted
  id on the last of two entries, and an id that no entry carries: the last entry. An empty
  list: the polled message.
\<close>

theorem resolve_full_message_successor_witness:
  "resolve_full_message (JStr ''u'') (JDict [(''status'', JStr ''COMPLETED'')])
     (JDict [(''messages'',
        JList [JDict [(''message_id'', JStr ''u''), (''role'', JStr ''USER'')],
               JDict [(''message_id'', JStr ''b'')],
               JDict [(''message_id'', JStr ''x'')]])])
     = Inr (JDict [(''message_id'', JStr ''b'')])
   \<and> resolve_full_message (JStr ''u'') (JDict [(''status'', JStr ''COMPLETED'')])
     (JDict [(''messages'',
        JList [JDict [(''message_id'', JStr ''b'')],
               JDict [(''message_id'', JStr ''u''), (''role'', JStr ''USER'')]])])
     = Inr (JDict [(''message_id'', JStr ''u''), (''role'', JStr ''USER'')])
   \<and> resolve_full_message (JStr ''zz'') (JDict [(''status'', JStr ''COMPLETED'')])
     (JDict [(''messages'',
        JList [JDict [(''message_id'', JStr ''u''), (''role'', JStr ''USER'')],
               JDict [(''message_id'', JStr ''b'')]])])
     = Inr (JDict [(''message_id'', JStr ''b'')])
   \<and> resolve_full_message (JStr ''u'') (JDict [(''status'', JStr ''COMPLETED'')]) (JDict [])
     = Inr (JDict [(''status'', JStr ''COMPLETED'')])"
  using resolve_full_message_successor
          [of "JDict [(''messages'',
                 JList [JDict [(''message_id'', JStr ''u''), (''role'', JStr ''USER'')],
                        JDict [(''message_id'', JStr ''b'')],
                        JDict [(''message_id'', JStr ''x'')]])]"
              "[JDict [(''message_id'', JStr ''u''), (''role'', JStr ''USER'')],
                JDict [(''message_id'', JStr ''b'')],
                JDict [(''message_id'', JStr ''x'')]]"
              0 "JStr ''u''" "JDict [(''status'', JStr ''COMPLETED'')]"]
        resolve_full_message_successor
          [of "JDict [(''messages'',
                 JList [JDict [(''message_id'', JStr ''b'')],
                        JDict [(''message_id'', JStr ''u''), (''role'', JStr ''USER'')]])]"
              "[JDict [(''message_id'', JStr ''b'')],
                JDict [(''message_id'', JStr ''u''), (''role'', JStr ''USER'')]]"
              1 "JStr ''u''" "JDict [(''status'', JStr ''COMPLETED'')]"]
        resolve_full_message_successor
          [of "JDict [(''messages'',
                 JList [JDict [(''message_id'', JStr ''u''), (''role'', JStr ''USER'')],
                        JDict [(''message_id'', JStr ''b'')]])]"
              "[JDict [(''message_id'', JStr ''u''), (''role'', JStr ''USER'')],
                JDict [(''message_id'', JStr ''b'')]]"
              2 "JStr ''zz''" "JDict [(''status'', JStr ''COMPLETED'')]"]
        resolve_full_message_successor
          [of "JDict []" "[]" 0 "JStr ''u''" "JDict [(''status'', JStr ''COMPLETED'')]"]
  by (simp add: entry_id_def all_less_1 all_less_2)

section \<open>Theorems: the normalizer\<close>

lemma py_get_attachment_id:
  "is_dict a \<Longrightarrow> py_get a ''attachment_id'' JNull = Inr (case py_get a ''attachment_id'' JNull of Inr v \<Rightarrow> v | Inl e \<Rightarrow> JNull)"
  by (cases a) auto

lemma content_pass_inert:
  assumes "inert a"
  shows "content_pass D c cid mid qt fetched (a # rest) = content_pass D c cid mid qt fetched rest"
  using assms py_get_is_dict [of a "''attachment_id''" JNull]
  by (auto simp: inert_def)

lemma content_pass_inert_prefix:
  "list_all inert pre \<Longrightarrow>
   content_pass D c cid mid qt fetched (pre @ rest) = content_pass D c cid mid qt fetched rest"
  by (induction pre) (simp_all add: content_pass_inert del: content_pass.simps)

lemma content_pass_text:
  assumes "is_dict a" "has_text_content a = Inr True" "text_content a = Inr content"
  shows "content_pass D c cid mid qt fetched (a # rest) = Inr (Value content, JNull, fetched)"
  using assms py_get_is_dict [of a "''attachment_id''" JNull]
  by auto

lemma py_in_dict: "py_in k (JDict kvs) = Inr (map_of kvs k \<noteq> None)"
  by (simp add: map_of_eq_None_iff)

lemma process_genie_response_unfold:
  assumes "py_get msg ''attachments'' (JList []) = Inr (JList entries)"
    and "collect_suggested_questions (JList []) entries = Inr sq"
  shows "process_genie_response D c cid mid msg =
     (case content_pass D c cid mid JNull [] entries of
        Inl e \<Rightarrow> Inl e
      | Inr (result, qt, fetched) \<Rightarrow>
          if result \<noteq> Value JNull then Inr ((result, qt, sq), fetched)
          else Inr (fallback_result msg sq fetched))"
proof -
  obtain kvs where m: "msg = JDict kvs"
    using assms(1) by (cases msg) auto
  show ?thesis
    using assms
    by (auto simp: m process_genie_response_def try_bind_def fallback_result_def
          top_level_content_def py_in_dict
        simp del: py_in.simps
        split: sum.splits option.splits prod.splits)
qed

lemma table_of_generic:
  assumes "py_get qr ''data_array'' (JList []) = Inr (JList (JList row # rows))"
    and "py_get qr ''schema'' (JDict []) = Inr schema"
    and "schema_columns schema = Inr []"
  shows "table_of D qr =
           try_bind (D (JList (JList row # rows)) (generic_columns (length row)))
             (\<lambda>df. Inr (Some df))"
  using assms by (simp add: table_of_def try_bind_def)

lemma table_of_empty:
  assumes "py_get qr ''data_array'' (JList []) = Inr d" "\<not> py_truthy d"
    and "py_get qr ''schema'' (JDict []) = Inr schema"
    and "schema_columns schema = Inr cols"
  shows "table_of D qr = Inr None"
  using assms by (simp add: table_of_def try_bind_def)

lemma content_pass_query:
  assumes "query_attachment a aid qtext"
    and "cl_get_query_result c (length fetched) cid mid aid = Inr qr"
  shows "content_pass D c cid mid qt fetched (a # rest) =
     (case table_of D qr of
        Inl e \<Rightarrow> Inl e
      | Inr None \<Rightarrow> content_pass D c cid mid qtext (fetched @ [aid]) rest
      | Inr (Some df) \<Rightarrow> Inr (Frame df, qtext, fetched @ [aid]))"
  using assms by (simp add: query_attachment_def)

text \<open>
  Claim C5. Let the first attachment the second pass does not step over be a query
  attachment whose fetched result has a row set with a first row \<open>row\<close> and a schema that
  yields no column names. The table constructor is called with exactly the fetched rows and
  the names \<open>column_0\<close>, ..., one per value of the first row; the table it returns is the
  result, with the query text of the attachment.
\<close>

theorem process_genie_response_generic_columns:
  assumes "py_get msg ''attachments'' (JList []) = Inr (JList (pre @ a # post))"
    and "collect_suggested_questions (JList []) (pre @ a # post) = Inr sq"
    and "list_all inert pre"
    and "query_attachment a aid qtext"
    and "cl_get_query_result c 0 cid mid aid = Inr qr"
    and "py_get qr ''data_array'' (JList []) = Inr (JList (JList row # rows))"
    and "py_get qr ''schema'' (JDict []) = Inr schema"
    and "schema_columns schema = Inr []"
  shows "process_genie_response D c cid mid msg =
           try_bind
             (D (JList (JList row # rows))
                (map (\<lambda>i. JStr (''column_'' @ str_of_nat i)) [0..<length row]))
             (\<lambda>df. Inr ((Frame df, qtext, sq), [aid]))"
proof -
  have "content_pass D c cid mid JNull [] (pre @ a # post) =
          (case table_of D qr of
             Inl e \<Rightarrow> Inl e
           | Inr None \<Rightarrow> content_pass D c cid mid qtext ([] @ [aid]) post
           | Inr (Some df) \<Rightarrow> Inr (Frame df, qtext, [] @ [aid]))"
    using assms(3) content_pass_query [OF assms(4), of c "[]" cid mid qr D JNull post] assms(5)
    by (simp add: content_pass_inert_prefix del: content_pass.simps)
  then show ?thesis
    by (simp add: process_genie_response_unfold [OF assms(1,2)]
          table_of_generic [OF assms(6,7,8)] try_bind_def generic_columns_def
        split: sum.splits)
qed

text \<open>
  Claim C10. Let the first attachment the second pass does not step over be a query
  attachment whose fetched result has an empty row set. The pass produces no table from it
  and goes on with the later attachments; if these yield no result either, the query text
  returned with the top-level content or with the placeholder is \<open>None\<close>, although the
  attachment was fetched.
\<close>

theorem content_pass_empty_rows:
  assumes "py_get msg ''attachments'' (JList []) = Inr (JList (pre @ a # post))"
    and "collect_suggested_questions (JList []) (pre @ a # post) = Inr sq"
    and "list_all inert pre"
    and "query_attachment a aid qtext"
    and "cl_get_query_result c 0 cid mid aid = Inr qr"
    and "py_get qr ''data_array'' (JList []) = Inr d" "\<not> py_truthy d"
    and "py_get qr ''schema'' (JDict []) = Inr schema"
    and "schema_columns schema = Inr cols"
  shows "content_pass D c cid mid JNull [] (pre @ a # post) =
           content_pass D c cid mid qtext [aid] post
       \<and> (content_pass D c cid mid qtext [aid] post = Inr (Value JNull, qt', fetched) \<longrightarrow>
            process_genie_response D c cid mid msg =
              Inr (case top_level_content msg of
                     Some content \<Rightarrow> ((Value content, JNull, sq), fetched)
                   | None \<Rightarrow>
                       ((Value (JStr ''No response available''), JNull, JList []), fetched)))"
proof -
  have "content_pass D c cid mid JNull [] (pre @ a # post) =
          (case table_of D qr of
             Inl e \<Rightarrow> Inl e
           | Inr None \<Rightarrow> content_pass D c cid mid qtext ([] @ [aid]) post
           | Inr (Some df) \<Rightarrow> Inr (Frame df, qtext, [] @ [aid]))"
    using assms(3) content_pass_query [OF assms(4), of c "[]" cid mid qr D JNull post] assms(5)
    by (simp add: content_pass_inert_prefix del: content_pass.simps)
  then have step: "content_pass D c cid mid JNull [] (pre @ a # post) =
           content_pass D c cid mid qtext [aid] post"
    by (simp add: table_of_empty [OF assms(6,7,8,9)])
  show ?thesis
    by (simp add: step process_genie_response_unfold [OF assms(1,2)] fallback_result_def)
qed

lemma collect_suggested_questions_last:
  assumes "list_all is_dict entries"
    and "\<forall>a\<in>set entries. \<forall>q. payload_questions a = Some q \<longrightarrow> (\<exists>n. py_len q = Inr n)"
  shows "collect_suggested_questions s entries = Inr (last_questions s entries)"
  using assms
proof (induction entries arbitrary: s)
  case Nil
  then show ?case by simp
next
  case (Cons a entries)
  then obtain kvs where a: "a = JDict kvs"
    by (cases a) auto
  have ih: "\<And>s. collect_suggested_questions s entries = Inr (last_questions s entries)"
    using Cons by simp
  show ?case
  proof (cases "map_of kvs ''suggested_questions''")
    case None
    then show ?thesis
      by (simp add: a ih py_in_dict payload_questions_def del: py_in.simps)
  next
    case (Some sq_data)
    show ?thesis
    proof (cases "payload_questions a")
      case None
      then have "\<not> (is_dict sq_data \<and> py_in ''questions'' sq_data = Inr True)"
        using Some by (cases sq_data) (auto simp: a payload_questions_def py_in_dict simp del: py_in.simps)
      then show ?thesis
        using None Some by (auto simp: a ih py_in_dict simp del: py_in.simps)
    next
      case (Some q)
      then obtain qs where qs: "sq_data = JDict qs" "map_of qs ''questions'' = Some q"
        using \<open>map_of kvs ''suggested_questions'' = Some sq_data\<close>
        by (cases sq_data) (auto simp: a payload_questions_def)
      obtain n where "py_len q = Inr n"
        using Cons.prems(2) Some by auto
      then show ?thesis
        using Some qs \<open>map_of kvs ''suggested_questions'' = Some sq_data\<close>
        by (simp add: a ih py_in_dict del: py_in.simps)
    qed
  qed
qed

lemma last_questions_none:
  "\<forall>b\<in>set post. payload_questions b = None \<Longrightarrow> last_questions s post = s"
  by (induction post) simp_all

lemma last_questions_last:
  "payload_questions a = Some Q \<Longrightarrow> \<forall>b\<in>set post. payload_questions b = None \<Longrightarrow>
   last_questions s (pre @ a # post) = Q"
  by (induction pre arbitrary: s) (simp_all add: last_questions_none split: option.splits)

lemma has_text_content_none:
  "no_text_content kvs \<Longrightarrow> has_text_content (JDict kvs) = Inr False"
  by (auto simp: no_text_content_def has_text_content_def try_bind_def py_in_dict
        simp del: py_in.simps split: option.splits json.splits)

lemma passed_over_inert: "passed_over a \<Longrightarrow> inert a"
  by (cases a)
     (auto simp: passed_over_def inert_def has_text_content_none py_in_dict
        simp del: py_in.simps)

lemma list_all_passed_over_inert: "list_all passed_over pre \<Longrightarrow> list_all inert pre"
  by (induction pre) (simp_all add: passed_over_inert)

lemma passed_over_is_dict: "passed_over a \<Longrightarrow> is_dict a"
  by (cases a) (auto simp: passed_over_def)

lemma inline_text:
  assumes "map_of a ''text'' = Some (JDict t)" "map_of t ''content'' = Some content"
  shows "has_text_content (JDict a) = Inr True" "text_content (JDict a) = Inr content"
  using assms
  by (auto simp: has_text_content_def text_content_def try_bind_def py_in_dict
        simp del: py_in.simps)

text \<open>
  Claim C3. Let the attachments be objects: first any number with neither inline text
  content nor a \<open>query\<close> key, then an attachment whose \<open>text\<close> field is an object holding
  \<open>content\<close> (not \<open>None\<close>), then any objects, query attachments included; and let every
  \<open>questions\<close> value of a suggested-questions payload have a length. The normalizer
  returns that content as the result with query text \<open>None\<close>, and calls
  \<open>get_query_result\<close> for no attachment: the list of fetched ids is empty.
\<close>

theorem process_genie_response_text_first:
  assumes "py_get msg ''attachments'' (JList []) = Inr (JList (pre @ JDict a # post))"
    and "list_all passed_over pre"
    and "map_of a ''text'' = Some (JDict t)"
    and "map_of t ''content'' = Some content"
    and "content \<noteq> JNull"
    and "list_all is_dict post"
    and "\<forall>x\<in>set (pre @ JDict a # post).
           \<forall>q. payload_questions x = Some q \<longrightarrow> (\<exists>n. py_len q = Inr n)"
  shows "process_genie_response D c cid mid msg =
           Inr ((Value content, JNull, last_questions (JList []) (pre @ JDict a # post)), [])"
proof -
  have d: "list_all is_dict (pre @ JDict a # post)"
    using assms(2,6) by (auto simp: list_all_iff passed_over_is_dict)
  have sq: "collect_suggested_questions (JList []) (pre @ JDict a # post)
              = Inr (last_questions (JList []) (pre @ JDict a # post))"
    using collect_suggested_questions_last [OF d assms(7)] .
  have cp: "content_pass D c cid mid JNull [] (pre @ JDict a # post)
              = Inr (Value content, JNull, [])"
    using list_all_passed_over_inert [OF assms(2)] inline_text [OF assms(3,4)]
    by (simp add: content_pass_inert_prefix content_pass_text del: content_pass.simps)
  show ?thesis
    using assms(5)
    by (simp add: process_genie_response_unfold [OF assms(1) sq] cp)
qed







text \<open>
  Claim C6, amended. Let the attachments be objects, and let every \<open>questions\<close> value
  held by a \<open>suggested_questions\<close> object have a length. The suggestions returned with a
  result from an attachment or with the top-level content are, verbatim, the \<open>questions\<close>
  value of the last attachment whose payload is an object with that key: when an attachment
  carries \<open>Q\<close> and no attachment after it has such a payload, they are \<open>Q\<close>. The
  placeholder is returned with no suggestions. Payloads that are not an object or have no
  \<open>questions\<close> key are passed over without an exception.
\<close>

theorem process_genie_response_suggestions:
  assumes "py_get msg ''attachments'' (JList []) = Inr (JList entries)"
    and "list_all is_dict entries"
    and "\<forall>a\<in>set entries. \<forall>q. payload_questions a = Some q \<longrightarrow> (\<exists>n. py_len q = Inr n)"
  shows "process_genie_response D c cid mid msg =
           (case content_pass D c cid mid JNull [] entries of
              Inl e \<Rightarrow> Inl e
            | Inr (result, qt, fetched) \<Rightarrow>
                if result \<noteq> Value JNull then
                  Inr ((result, qt, last_questions (JList []) entries), fetched)
                else
                  (case top_level_content msg of
                     Some content \<Rightarrow>
                       Inr ((Value content, JNull, last_questions (JList []) entries), fetched)
                   | None \<Rightarrow>
                       Inr ((Value (JStr ''No response available''), JNull, JList []),
                            fetched)))
       \<and> (\<forall>pre a post Q.
             entries = pre @ a # post \<and> payload_questions a = Some Q
             \<and> (\<forall>b\<in>set post. payload_questions b = None)
             \<longrightarrow> last_questions (JList []) entries = Q)"
proof -
  have c: "collect_suggested_questions (JList []) entries
             = Inr (last_questions (JList []) entries)"
    using collect_suggested_questions_last [OF assms(2,3)] .
  show ?thesis
    by (auto simp: process_genie_response_unfold [OF assms(1) c] fallback_result_def
          last_questions_last
        split: sum.splits option.splits)
qed

lemmas scenario_simps = scripted_client_def plain_table_def inert_def query_attachment_def
  has_text_content_def text_content_def query_of_def try_bind_def table_of_def
  schema_columns_def generic_columns_def top_level_content_def payload_questions_def

text \<open>
  An attachment with neither text nor query, a text attachment, and a query attachment
  behind it: the text is the result and nothing is fetched.
\<close>

theorem process_genie_response_text_first_witness:
  "process_genie_response plain_table idle_client (JStr ''c'') (JStr ''m'')
     (JDict [(''attachments'', JList
        [JDict [(''attachment_id'', JStr ''a0'')],
         JDict [(''attachment_id'', JStr ''a1''),
                (''text'', JDict [(''content'', JStr ''Hello'')])],
         JDict [(''attachment_id'', JStr ''a2''),
                (''query'', JDict [(''query'', JStr ''SELECT 1'')])]])])
   = Inr ((Value (JStr ''Hello''), JNull, JList []), [])"
  using process_genie_response_text_first
    [where pre = "[JDict [(''attachment_id'', JStr ''a0'')]]"
       and post = "[JDict [(''attachment_id'', JStr ''a2''),
                (''query'', JDict [(''query'', JStr ''SELECT 1'')])]]"
       and a = "[(''attachment_id'', JStr ''a1''),
                (''text'', JDict [(''content'', JStr ''Hello'')])]"
       and t = "[(''content'', JStr ''Hello'')]" and content = "JStr ''Hello''"
       and msg = "JDict [(''attachments'', JList
        [JDict [(''attachment_id'', JStr ''a0'')],
         JDict [(''attachment_id'', JStr ''a1''),
                (''text'', JDict [(''content'', JStr ''Hello'')])],
         JDict [(''attachment_id'', JStr ''a2''),
                (''query'', JDict [(''query'', JStr ''SELECT 1'')])]])]"
       and D = plain_table and cid = "JStr ''c''" and mid = "JStr ''m''"
       and c = idle_client]
  by (simp add: passed_over_def no_text_content_def payload_questions_def)



text \<open>Three rows of four values and an empty schema: four names, three rows.\<close>

theorem process_genie_response_generic_columns_witness:
  "process_genie_response plain_table
     (scripted_client JNull (\<lambda>_. JNull) JNull
        (\<lambda>_. JDict [(''data_array'',
                      JList [JList [JStr ''a'', JStr ''b'', JStr ''c'', JStr ''d''],
                             JList [JStr ''e'', JStr ''f'', JStr ''g'', JStr ''h''],
                             JList [JStr ''i'', JStr ''j'', JStr ''k'', JStr ''l'']]),
                     (''schema'', JDict [])]))
     (JStr ''c'') (JStr ''m'')
     (JDict [(''attachments'', JList
               [JDict [(''attachment_id'', JStr ''a2''),
                       (''query'', JDict [(''query'', JStr ''SELECT 1'')])]])])
   = Inr ((Frame (JList [JList [JStr ''a'', JStr ''b'', JStr ''c'', JStr ''d''],
                         JList [JStr ''e'', JStr ''f'', JStr ''g'', JStr ''h''],
                         JList [JStr ''i'', JStr ''j'', JStr ''k'', JStr ''l'']],
                  [JStr ''column_0'', JStr ''column_1'', JStr ''column_2'', JStr ''column_3'']),
           JStr ''SELECT 1'', JList []), [JStr ''a2''])"
proof -
  have u: "[0..<4] = [0, 1, 2, 3::nat]"
    by (simp add: upt_rec)
  show ?thesis
  using process_genie_response_generic_columns
    [where pre = "[]" and post = "[]"
       and a = "JDict [(''attachment_id'', JStr ''a2''),
                       (''query'', JDict [(''query'', JStr ''SELECT 1'')])]"
       and aid = "JStr ''a2''" and qtext = "JStr ''SELECT 1''"
       and sq = "JList []"
       and qr = "JDict [(''data_array'',
                      JList [JList [JStr ''a'', JStr ''b'', JStr ''c'', JStr ''d''],
                             JList [JStr ''e'', JStr ''f'', JStr ''g'', JStr ''h''],
                             JList [JStr ''i'', JStr ''j'', JStr ''k'', JStr ''l'']]),
                     (''schema'', JDict [])]"
       and row = "[JStr ''a'', JStr ''b'', JStr ''c'', JStr ''d'']"
       and rows = "[JList [JStr ''e'', JStr ''f'', JStr ''g'', JStr ''h''],
                             JList [JStr ''i'', JStr ''j'', JStr ''k'', JStr ''l'']]"
       and schema = "JDict []"
       and msg = "JDict [(''attachments'', JList
               [JDict [(''attachment_id'', JStr ''a2''),
                       (''query'', JDict [(''query'', JStr ''SELECT 1'')])]])]"
       and D = plain_table and cid = "JStr ''c''" and mid = "JStr ''m''"
       and c = "scripted_client JNull (\<lambda>_. JNull) JNull
        (\<lambda>_. JDict [(''data_array'',
                      JList [JList [JStr ''a'', JStr ''b'', JStr ''c'', JStr ''d''],
                             JList [JStr ''e'', JStr ''f'', JStr ''g'', JStr ''h''],
                             JList [JStr ''i'', JStr ''j'', JStr ''k'', JStr ''l'']]),
                     (''schema'', JDict [])])"]
  by (simp add: scenario_simps u)
qed

text \<open>
  An empty query result followed by a text attachment: the text is returned. An empty query
  result alone: the placeholder, with the fetched id on record.
\<close>

theorem content_pass_empty_rows_witness:
  "content_pass plain_table
     (scripted_client JNull (\<lambda>_. JNull) JNull
        (\<lambda>_. JDict [(''data_array'', JList []), (''schema'', JDict [])]))
     (JStr ''c'') (JStr ''m'') JNull []
     [JDict [(''attachment_id'', JStr ''a2''),
             (''query'', JDict [(''query'', JStr ''SELECT 1'')])],
      JDict [(''attachment_id'', JStr ''a1''),
             (''text'', JDict [(''content'', JStr ''Hello'')])]]
   = Inr (Value (JStr ''Hello''), JNull, [JStr ''a2''])
   \<and> process_genie_response plain_table
     (scripted_client JNull (\<lambda>_. JNull) JNull
        (\<lambda>_. JDict [(''data_array'', JList []), (''schema'', JDict [])]))
     (JStr ''c'') (JStr ''m'')
     (JDict [(''attachments'', JList
               [JDict [(''attachment_id'', JStr ''a2''),
                       (''query'', JDict [(''query'', JStr ''SELECT 1'')])]])])
   = Inr ((Value (JStr ''No response available''), JNull, JList []), [JStr ''a2''])"
  using content_pass_empty_rows
    [where pre = "[]"
       and post = "[JDict [(''attachment_id'', JStr ''a1''),
                           (''text'', JDict [(''content'', JStr ''Hello'')])]]"
       and a = "JDict [(''attachment_id'', JStr ''a2''),
                       (''query'', JDict [(''query'', JStr ''SELECT 1'')])]"
       and aid = "JStr ''a2''" and qtext = "JStr ''SELECT 1''"
       and sq = "JList []"
       and qr = "JDict [(''data_array'', JList []), (''schema'', JDict [])]"
       and d = "JList []" and schema = "JDict []" and cols = "[]"
       and qt' = JNull and fetched = "[]"
       and msg = "JDict [(''attachments'', JList
               [JDict [(''attachment_id'', JStr ''a2''),
                       (''query'', JDict [(''query'', JStr ''SELECT 1'')])],
                JDict [(''attachment_id'', JStr ''a1''),
                           (''text'', JDict [(''content'', JStr ''Hello'')])]])]"
       and D = plain_table and cid = "JStr ''c''" and mid = "JStr ''m''"
       and c = "scripted_client JNull (\<lambda>_. JNull) JNull
        (\<lambda>_. JDict [(''data_array'', JList []), (''schema'', JDict [])])"]
    content_pass_empty_rows
    [where pre = "[]" and post = "[]"
       and a = "JDict [(''attachment_id'', JStr ''a2''),
                       (''query'', JDict [(''query'', JStr ''SELECT 1'')])]"
       and aid = "JStr ''a2''" and qtext = "JStr ''SELECT 1''"
       and sq = "JList []"
       and qr = "JDict [(''data_array'', JList []), (''schema'', JDict [])]"
       and d = "JList []" and schema = "JDict []" and cols = "[]"
       and qt' = "JStr ''SELECT 1''" and fetched = "[JStr ''a2'']"
       and msg = "JDict [(''attachments'', JList
               [JDict [(''attachment_id'', JStr ''a2''),
                       (''query'', JDict [(''query'', JStr ''SELECT 1'')])]])]"
       and D = plain_table and cid = "JStr ''c''" and mid = "JStr ''m''"
       and c = "scripted_client JNull (\<lambda>_. JNull) JNull
        (\<lambda>_. JDict [(''data_array'', JList []), (''schema'', JDict [])])"]
  by (simp add: scenario_simps)

text \<open>
  Claim C6 as stated fails in three ways. An attachment carries \<open>{questions: ["A", "B"]}\<close>,
  nothing supplies a content result, and the suggestions returned are empty. A later
  attachment carries \<open>{questions: ["C"]}\<close>, and the suggestions returned are \<open>["C"]\<close>.
  An attachment carries the malformed payload \<open>{questions: null}\<close>, and the normalizer
  raises \<open>TypeError\<close>.
\<close>

theorem process_genie_response_suggestions_counterexample:
  "process_genie_response plain_table idle_client (JStr ''c'') (JStr ''m'')
     (JDict [(''attachments'', JList
               [JDict [(''suggested_questions'',
                       JDict [(''questions'', JList [JStr ''A'', JStr ''B''])])]])])
   = Inr ((Value (JStr ''No response available''), JNull, JList []), [])
   \<and> JList [] \<noteq> JList [JStr ''A'', JStr ''B'']
   \<and> process_genie_response plain_table idle_client (JStr ''c'') (JStr ''m'')
     (JDict [(''attachments'', JList
               [JDict [(''suggested_questions'',
                       JDict [(''questions'', JList [JStr ''A'', JStr ''B''])])],
                JDict [(''suggested_questions'',
                       JDict [(''questions'', JList [JStr ''C''])])],
                JDict [(''text'', JDict [(''content'', JStr ''Hello'')])]])])
   = Inr ((Value (JStr ''Hello''), JNull, JList [JStr ''C'']), [])
   \<and> JList [JStr ''C''] \<noteq> JList [JStr ''A'', JStr ''B'']
   \<and> process_genie_response plain_table idle_client (JStr ''c'') (JStr ''m'')
     (JDict [(''attachments'', JList
               [JDict [(''suggested_questions'', JDict [(''questions'', JNull)])],
                JDict [(''text'', JDict [(''content'', JStr ''Hello'')])]])])
   = Inl (Exn TypeError ''object of type 'NoneType' has no len()'')"
  by (simp add: process_genie_response_def idle_client_def scenario_simps quoted_def)

text \<open>
  The payload \<open>{questions: ["A", "B"]}\<close>, a malformed payload and a text attachment; the
  payload and top-level content.
\<close>

theorem process_genie_response_suggestions_witness:
  "process_genie_response plain_table
     (scripted_client JNull (\<lambda>_. JNull) JNull (\<lambda>_. JNull)) (JStr ''c'') (JStr ''m'')
     (JDict [(''attachments'', JList
               [JDict [(''suggested_questions'',
                       JDict [(''questions'', JList [JStr ''A'', JStr ''B''])])],
                JDict [(''suggested_questions'', JStr ''none'')],
                JDict [(''attachment_id'', JStr ''a1''),
                       (''text'', JDict [(''content'', JStr ''Hello'')])]])])
   = Inr ((Value (JStr ''Hello''), JNull, JList [JStr ''A'', JStr ''B'']), [])
   \<and> process_genie_response plain_table
     (scripted_client JNull (\<lambda>_. JNull) JNull (\<lambda>_. JNull)) (JStr ''c'') (JStr ''m'')
     (JDict [(''attachments'', JList
               [JDict [(''suggested_questions'',
                       JDict [(''questions'', JList [JStr ''A'', JStr ''B''])])]]),
             (''content'', JStr ''Plain'')])
   = Inr ((Value (JStr ''Plain''), JNull, JList [JStr ''A'', JStr ''B'']), [])"
proof -
  let ?s = "JDict [(''suggested_questions'',
                       JDict [(''questions'', JList [JStr ''A'', JStr ''B''])])]"
  let ?m = "JDict [(''suggested_questions'', JStr ''none'')]"
  let ?t = "JDict [(''attachment_id'', JStr ''a1''),
                       (''text'', JDict [(''content'', JStr ''Hello'')])]"
  let ?c = "scripted_client JNull (\<lambda>_. JNull) JNull (\<lambda>_. JNull)"
  have a1: "py_get (JDict [(''attachments'', JList [?s, ?m, ?t])]) ''attachments'' (JList [])
              = Inr (JList [?s, ?m, ?t])"
    by simp
  have a2: "list_all is_dict [?s, ?m, ?t]"
    by simp
  have a3: "\<forall>a\<in>set [?s, ?m, ?t]. \<forall>q. payload_questions a = Some q \<longrightarrow> (\<exists>n. py_len q = Inr n)"
    by (simp add: payload_questions_def)
  have b1: "py_get (JDict [(''attachments'', JList [?s]), (''content'', JStr ''Plain'')])
              ''attachments'' (JList []) = Inr (JList [?s])"
    by simp
  have b2: "list_all is_dict [?s]"
    by simp
  have b3: "\<forall>a\<in>set [?s]. \<forall>q. payload_questions a = Some q \<longrightarrow> (\<exists>n. py_len q = Inr n)"
    by (simp add: payload_questions_def)
  show ?thesis
    using process_genie_response_suggestions [OF a1 a2 a3, of plain_table ?c "JStr ''c''" "JStr ''m''"]
          process_genie_response_suggestions [OF b1 b2 b3, of plain_table ?c "JStr ''c''" "JStr ''m''"]
    by (simp add: scenario_simps)
qed

section \<open>Theorems: the retry decorator\<close>

lemma on_exception_success:
  "target (Suc n) = Inr v \<Longrightarrow>
   on_exception max_tries factor jitter target n = \<lparr>outcome = Inr v, tries = Suc n, waits = []\<rparr>"
  by (subst on_exception.simps) simp

lemma on_exception_giveup:
  "target (Suc n) = Inl e \<Longrightarrow> max_tries \<le> Suc n \<Longrightarrow>
   on_exception max_tries factor jitter target n = \<lparr>outcome = Inl e, tries = Suc n, waits = []\<rparr>"
  by (subst on_exception.simps) simp

lemma on_exception_retry:
  "target (Suc n) = Inl e \<Longrightarrow> \<not> max_tries \<le> Suc n \<Longrightarrow>
   on_exception max_tries factor jitter target n =
     (on_exception max_tries factor jitter target (Suc n))
       \<lparr>waits := jitter (Suc n) * (factor * 2 ^ n)
                 # waits (on_exception max_tries factor jitter target (Suc n))\<rparr>"
  by (subst on_exception.simps) (simp add: Let_def)

lemma on_exception_props:
  "n < max_tries \<Longrightarrow>
     Suc n \<le> tries (on_exception max_tries factor jitter target n)
   \<and> tries (on_exception max_tries factor jitter target n) \<le> max_tries
   \<and> outcome (on_exception max_tries factor jitter target n)
        = target (tries (on_exception max_tries factor jitter target n))
   \<and> (\<forall>k. n < k \<and> k < tries (on_exception max_tries factor jitter target n) \<longrightarrow> isl (target k))
   \<and> (tries (on_exception max_tries factor jitter target n) < max_tries
        \<longrightarrow> \<not> isl (target (tries (on_exception max_tries factor jitter target n))))
   \<and> waits (on_exception max_tries factor jitter target n)
        = map (\<lambda>k. jitter k * (factor * 2 ^ (k - 1)))
            [Suc n..<tries (on_exception max_tries factor jitter target n)]"
proof (induction "max_tries - n" arbitrary: n)
  case 0
  then show ?case by simp
next
  case (Suc d)
  show ?case
  proof (cases "target (Suc n)")
    case (Inr v)
    show ?thesis
      using Suc.prems Inr on_exception_success [of target n v max_tries factor jitter] by auto
  next
    case (Inl e)
    show ?thesis
    proof (cases "max_tries \<le> Suc n")
      case True
      show ?thesis
        using Suc.prems Inl True on_exception_giveup [of target n e max_tries factor jitter] by auto
    next
      case False
      let ?r = "on_exception max_tries factor jitter target (Suc n)"
      note retry = on_exception_retry [of target n e max_tries factor jitter, OF Inl False]
      have d: "d = max_tries - Suc n" using Suc.hyps(2) by simp
      have lt: "Suc n < max_tries" using False by simp
      note ih = Suc.hyps(1) [OF d lt]
      have t: "tries (on_exception max_tries factor jitter target n) = tries ?r"
        by (simp add: retry)
      have o: "outcome (on_exception max_tries factor jitter target n) = outcome ?r"
        by (simp add: retry)
      have w: "waits (on_exception max_tries factor jitter target n)
                 = jitter (Suc n) * (factor * 2 ^ n) # waits ?r"
        by (simp add: retry)
      have upt: "[Suc n..<tries ?r] = Suc n # [Suc (Suc n)..<tries ?r]"
        using ih by (simp add: upt_conv_Cons)
      have all: "\<forall>k. n < k \<and> k < tries ?r \<longrightarrow> isl (target k)"
      proof (intro allI impI)
        fix k assume "n < k \<and> k < tries ?r"
        then have "k = Suc n \<or> (Suc n < k \<and> k < tries ?r)" by auto
        then show "isl (target k)" using ih Inl by auto
      qed
      have c1: "Suc n \<le> tries ?r" using ih by simp
      have c2: "tries ?r \<le> max_tries" using ih by simp
      have c3: "outcome ?r = target (tries ?r)" using ih by simp
      have c5: "tries ?r < max_tries \<longrightarrow> \<not> isl (target (tries ?r))" using ih by simp
      have c6: "jitter (Suc n) * (factor * 2 ^ n) # waits ?r
                  = map (\<lambda>k. jitter k * (factor * 2 ^ (k - 1))) [Suc n..<tries ?r]"
        using ih by (simp add: upt)
      show ?thesis
        unfolding t o w using c1 c2 c3 all c5 c6 by blast
    qed
  qed
qed

text \<open>
  Claim C9. A decorated method makes between one and five attempts; every attempt before
  the last raised; when fewer than five attempts were made the last one returned; the
  outcome of the call is the outcome of the last attempt, so after a fifth failure the
  error of that attempt reaches the caller as it was raised. The delay slept after the
  \<open>k\<close>-th failure is the share \<open>jitter k\<close> of the computed delay, which starts at 2
  and doubles with each attempt.
\<close>

theorem with_backoff_retries:
  "1 \<le> tries (with_backoff jitter target)
   \<and> tries (with_backoff jitter target) \<le> 5
   \<and> outcome (with_backoff jitter target) = target (tries (with_backoff jitter target))
   \<and> (\<forall>k. 1 \<le> k \<and> k < tries (with_backoff jitter target) \<longrightarrow> isl (target k))
   \<and> (tries (with_backoff jitter target) < 5 \<longrightarrow> \<not> isl (outcome (with_backoff jitter target)))
   \<and> waits (with_backoff jitter target)
        = map (\<lambda>k. jitter k * (2 * 2 ^ (k - 1))) [1..<tries (with_backoff jitter target)]"
proof -
  let ?r = "on_exception 5 2 jitter target 0"
  have "(0::nat) < 5" by simp
  note p = on_exception_props [OF this, of 2 jitter target]
  have c1: "1 \<le> tries ?r" using p by simp
  have c2: "tries ?r \<le> 5" using p by simp
  have c3: "outcome ?r = target (tries ?r)" using p by simp
  have c4: "\<forall>k. 1 \<le> k \<and> k < tries ?r \<longrightarrow> isl (target k)"
    using p by (simp add: Suc_le_eq)
  have c5: "tries ?r < 5 \<longrightarrow> \<not> isl (outcome ?r)" using p c3 by simp
  have c6: "waits ?r = map (\<lambda>k. jitter k * (2 * 2 ^ (k - 1))) [1..<tries ?r]"
    using p by simp
  show ?thesis
    unfolding with_backoff_def using c1 c2 c3 c4 c5 c6 by blast
qed

lemma with_backoff_tries:
  assumes "1 \<le> m" "m \<le> 5"
    and "\<forall>k. 1 \<le> k \<and> k < m \<longrightarrow> isl (target k)"
    and "m < 5 \<longrightarrow> \<not> isl (target m)"
  shows "tries (with_backoff jitter target) = m"
proof -
  let ?n = "tries (on_exception 5 2 jitter target 0)"
  have "(0::nat) < 5" by simp
  note p = on_exception_props [OF this, of 2 jitter target]
  have c1: "1 \<le> ?n" using p by simp
  have c2: "?n \<le> 5" using p by simp
  have c4: "\<forall>k. 1 \<le> k \<and> k < ?n \<longrightarrow> isl (target k)"
    using p by (simp add: Suc_le_eq)
  have c5: "?n < 5 \<longrightarrow> \<not> isl (target ?n)" using p by simp
  have a: "\<not> ?n < m"
  proof
    assume l: "?n < m"
    then have "isl (target ?n)" using assms(3) c1 by blast
    moreover have "?n < 5" using l assms(2) by simp
    ultimately show False using c5 by blast
  qed
  have b: "\<not> m < ?n"
  proof
    assume l: "m < ?n"
    then have "isl (target m)" using c4 assms(1) by blast
    moreover have "m < 5" using l c2 by simp
    ultimately show False using assms(4) by blast
  qed
  show ?thesis unfolding with_backoff_def using a b by simp
qed

text \<open>
  \<open>start_conversation\<close> against a service that answers 404 every time: five attempts,
  delays 2, 4, 8, 16 at full jitter, and the \<open>HTTPError\<close> of the fifth attempt as the
  outcome. \<open>get_query_result\<close> against a network that fails twice: three attempts and
  the extracted result.
\<close>

theorem with_backoff_retries_witness:
  "tries (start_conversation always_404 no_jitter ''host'' ''space'' ''How many?'') = 5
   \<and> outcome (start_conversation always_404 no_jitter ''host'' ''space'' ''How many?'')
       = Inl (Exn (HTTPError 404)
           (''404 Client Error: Not Found for url: ''
            @ ''https://host/api/2.0/genie/spaces/space/start-conversation''))
   \<and> waits (start_conversation always_404 no_jitter ''host'' ''space'' ''How many?'')
       = [2, 4, 8, 16]
   \<and> tries (get_query_result flaky_network no_jitter ''host'' ''space'' ''c'' ''m'' ''a'') = 3
   \<and> outcome (get_query_result flaky_network no_jitter ''host'' ''space'' ''c'' ''m'' ''a'')
       = Inr (JDict [(''data_array'', JList [JList [JStr ''1'']]), (''schema'', JDict [])])
   \<and> waits (get_query_result flaky_network no_jitter ''host'' ''space'' ''c'' ''m'' ''a'')
       = [2, 4]"
proof -
  define T where "T = (\<lambda>k. fetch_json (always_404 k
         \<lparr>http_method = ''POST'',
          request_url = base_url ''host'' ''space'' @ ''/start-conversation'',
          request_json = Some (JDict [(''content'', JStr ''How many?'')]),
          request_params = []\<rparr>))"
  define G where "G = (\<lambda>k. try_bind
         (fetch_json (flaky_network k
            \<lparr>http_method = ''GET'',
             request_url = base_url ''host'' ''space'' @ ''/conversations/'' @ ''c''
                           @ ''/messages/'' @ ''m'' @ ''/attachments/'' @ ''a''
                           @ ''/query-result'',
             request_json = None,
             request_params = []\<rparr>))
         extract_query_result)"
  have sc: "start_conversation always_404 no_jitter ''host'' ''space'' ''How many?''
              = with_backoff no_jitter T"
    by (simp only: start_conversation_def T_def)
  have gq: "get_query_result flaky_network no_jitter ''host'' ''space'' ''c'' ''m'' ''a''
              = with_backoff no_jitter G"
    by (simp only: get_query_result_def G_def)
  have t: "\<And>k. T k = Inl (Exn (HTTPError 404)
           (''404 Client Error: Not Found for url: ''
            @ ''https://host/api/2.0/genie/spaces/space/start-conversation''))"
    by (simp add: T_def fetch_json_def always_404_def raise_for_status_def try_bind_def
          base_url_def)
  have g1: "\<And>k. k < 3 \<Longrightarrow> G k = Inl (Exn RequestException ''Connection aborted.'')"
    by (simp add: G_def fetch_json_def flaky_network_def try_bind_def)
  have g3: "G 3 = Inr (JDict [(''data_array'', JList [JList [JStr ''1'']]),
                              (''schema'', JDict [])])"
    by (simp add: G_def fetch_json_def flaky_network_def raise_for_status_def try_bind_def
          extract_query_result_def)
  have tt: "tries (with_backoff no_jitter T) = 5"
    by (rule with_backoff_tries) (simp_all add: t)
  have tg: "tries (with_backoff no_jitter G) = 3"
    by (rule with_backoff_tries) (simp_all add: g1 g3)
  have u5: "map (\<lambda>k. 2 * 2 ^ (k - Suc 0)) [Suc 0..<5] = [2, 4, 8, 16::real]"
    by (simp add: upt_rec)
  have u3: "map (\<lambda>k. 2 * 2 ^ (k - Suc 0)) [Suc 0..<3] = [2, 4::real]"
    by (simp add: upt_rec)
  have ot: "outcome (with_backoff no_jitter T) = T 5"
    using with_backoff_retries [of no_jitter T] by (simp only: tt)
  have wt: "waits (with_backoff no_jitter T) = [2, 4, 8, 16]"
    using with_backoff_retries [of no_jitter T] by (simp add: tt u5 no_jitter_def)
  have og: "outcome (with_backoff no_jitter G) = G 3"
    using with_backoff_retries [of no_jitter G] by (simp only: tg)
  have wg: "waits (with_backoff no_jitter G) = [2, 4]"
    using with_backoff_retries [of no_jitter G] by (simp add: tg u3 no_jitter_def)
  show ?thesis
    by (simp only: sc gq tt tg ot og wt wg t g3 simp_thms)
qed

section \<open>Theorems: feedback\<close>

text \<open>
  Claim C7. Every call of \<open>send_feedback\<close> issues exactly one request, the POST to the
  feedback endpoint of the message, with rating \<open>POSITIVE\<close> when the sentiment is
  \<open>positive\<close> and \<open>NEGATIVE\<close> for every other value. It never raises: it returns \<open>True\<close>
  when \<open>send_message_feedback\<close> returns and \<open>False\<close> when that raises. The post returns
  exactly when the network answers with a response whose status is not from 400 to 599 and
  whose body is empty or decodes as JSON.
\<close>

theorem send_feedback_rating:
  "snd (send_feedback http host space_id cid mid ft) =
     [feedback_request host space_id cid mid
        (if ft = ''positive'' then ''POSITIVE'' else ''NEGATIVE'')]
   \<and> fst (send_feedback http host space_id cid mid ft) =
       Inr (\<not> isl (fst (send_message_feedback http host space_id cid mid ft)))
   \<and> (\<not> isl (fst (send_message_feedback http host space_id cid mid ft)) \<longleftrightarrow>
        (\<exists>response.
           http (feedback_request host space_id cid mid
                   (if ft = ''positive'' then ''POSITIVE'' else ''NEGATIVE'')) = Inr response
           \<and> \<not> (400 \<le> status_code response \<and> status_code response < 600)
           \<and> (response_text response = [] \<or> \<not> isl (response_json response))))"
proof (intro conjI)
  show "snd (send_feedback http host space_id cid mid ft) =
     [feedback_request host space_id cid mid
        (if ft = ''positive'' then ''POSITIVE'' else ''NEGATIVE'')]"
    by (simp add: send_feedback_def send_message_feedback_def feedback_request_def Let_def
          split: sum.splits exn_kind.splits)
  show "fst (send_feedback http host space_id cid mid ft) =
       Inr (\<not> isl (fst (send_message_feedback http host space_id cid mid ft)))"
    by (cases "send_message_feedback http host space_id cid mid ft")
       (auto simp: send_feedback_def split: sum.splits exn_kind.splits)
  show "\<not> isl (fst (send_message_feedback http host space_id cid mid ft)) \<longleftrightarrow>
        (\<exists>response.
           http (feedback_request host space_id cid mid
                   (if ft = ''positive'' then ''POSITIVE'' else ''NEGATIVE'')) = Inr response
           \<and> \<not> (400 \<le> status_code response \<and> status_code response < 600)
           \<and> (response_text response = [] \<or> \<not> isl (response_json response)))"
    by (cases "http (feedback_request host space_id cid mid
                   (if ft = ''positive'' then ''POSITIVE'' else ''NEGATIVE''))")
       (auto simp: send_message_feedback_def feedback_request_def Let_def try_bind_def
          raise_for_status_def split: sum.splits if_splits)
qed

text \<open>
  A service that answers 200: \<open>True\<close>, with \<open>POSITIVE\<close> posted for \<open>positive\<close> and
  \<open>NEGATIVE\<close> for another word. A service that answers 403: \<open>False\<close>.
\<close>

theorem send_feedback_rating_witness:
  "send_feedback always_200 ''host'' ''space'' ''c'' ''m'' ''positive'' =
     (Inr True, [feedback_request ''host'' ''space'' ''c'' ''m'' ''POSITIVE''])
   \<and> send_feedback always_200 ''host'' ''space'' ''c'' ''m'' ''thumbs down'' =
     (Inr True, [feedback_request ''host'' ''space'' ''c'' ''m'' ''NEGATIVE''])
   \<and> send_feedback always_403 ''host'' ''space'' ''c'' ''m'' ''positive'' =
     (Inr False, [feedback_request ''host'' ''space'' ''c'' ''m'' ''POSITIVE''])"
proof -
  have a: "\<not> isl (fst (send_message_feedback always_200 ''host'' ''space'' ''c'' ''m'' ''positive''))"
    using send_feedback_rating [of always_200 "''host''" "''space''" "''c''" "''m''" "''positive''"]
    by (simp add: always_200_def)
  have b: "\<not> isl (fst (send_message_feedback always_200 ''host'' ''space'' ''c'' ''m'' ''thumbs down''))"
    using send_feedback_rating [of always_200 "''host''" "''space''" "''c''" "''m''" "''thumbs down''"]
    by (simp add: always_200_def)
  have c: "isl (fst (send_message_feedback always_403 ''host'' ''space'' ''c'' ''m'' ''positive''))"
    using send_feedback_rating [of always_403 "''host''" "''space''" "''c''" "''m''" "''positive''"]
    by (simp add: always_403_def)
  show ?thesis
    using send_feedback_rating [of always_200 "''host''" "''space''" "''c''" "''m''" "''positive''"]
          send_feedback_rating [of always_200 "''host''" "''space''" "''c''" "''m''" "''thumbs down''"]
          send_feedback_rating [of always_403 "''host''" "''space''" "''c''" "''m''" "''positive''"]
          a b c
    by (simp add: prod_eq_iff)
qed

section \<open>Theorems: errors of \<open>continue_conversation\<close>\<close>











end
